theory Spec2Isabelle
  imports Complex_Main
begin

section \<open>Python values used by NeuralNetMaster\<close>

text \<open>
  Exceptions are values: every \<^verbatim>\<open>raise\<close> of the source and every failure of a numpy,
  Keras or file-system call it makes is one constructor, carrying the message.
\<close>

datatype exn =
    ValueError string
  | TypeError string
  | IndexError string
  | AttributeError string
  | ImportError string
  | OSError string
  | NotImplementedError
  | FrameworkError string

text \<open>
  \<^verbatim>\<open>input_shape\<close> and \<^verbatim>\<open>labels_shape\<close> hold \<^verbatim>\<open>None\<close>, an int or a tuple of ints.
\<close>

datatype pyshape = PyNone | PyInt int | PyTuple "nat list"

text \<open>
  A float is modelled by the real number it holds; infinities and NaN are not
  represented. \<^verbatim>\<open>int(f)\<close> on a float truncates towards zero.
\<close>

definition py_int :: "real \<Rightarrow> int" where
  "py_int f = (if 0 \<le> f then \<lfloor>f\<rfloor> else \<lceil>f\<rceil>)"

text \<open>
  Rounding to the nearest IEEE double, ties to even. The magnitude is scaled by powers of
  two into a significand \<open>m\<close> with \<open>2^52 \<le> m < 2^53\<close> and a unit \<open>u\<close> with \<open>m * u\<close> the magnitude;
  the significand is rounded to an integer. The unit does not go below \<open>2^-1074\<close>
  (subnormal numbers). Overflow to infinity, beyond \<open>2^1024\<close>, is not modelled.
\<close>

definition round_half_even :: "real \<Rightarrow> int" where
  "round_half_even x =
     (if x - of_int \<lfloor>x\<rfloor> < 1 / 2 then \<lfloor>x\<rfloor>
      else if 1 / 2 < x - of_int \<lfloor>x\<rfloor> then \<lfloor>x\<rfloor> + 1
      else if even \<lfloor>x\<rfloor> then \<lfloor>x\<rfloor> else \<lfloor>x\<rfloor> + 1)"

fun scale_up :: "nat \<Rightarrow> real \<Rightarrow> real \<Rightarrow> real \<times> real" where
  "scale_up 0 m u = (m, u)"
| "scale_up (Suc n) m u = (if m < 2 ^ 52 then scale_up n (2 * m) (u / 2) else (m, u))"

fun scale_down :: "nat \<Rightarrow> real \<Rightarrow> real \<Rightarrow> real \<times> real" where
  "scale_down 0 m u = (m, u)"
| "scale_down (Suc n) m u = (if 2 ^ 53 \<le> m then scale_down n (m / 2) (2 * u) else (m, u))"

definition round_double :: "real \<Rightarrow> real" where
  "round_double x =
     (if x = 0 then 0
      else case scale_up 1074 \<bar>x\<bar> 1 of (m1, u1) \<Rightarrow>
             (case scale_down 971 m1 u1 of (m, u) \<Rightarrow>
                sgn x * of_int (round_half_even m) * u))"

text \<open>
  \<^verbatim>\<open>n * f\<close> for an int \<open>n\<close> and a float \<open>f\<close>: the int is converted to the nearest double and
  the product of the two doubles is rounded to the nearest double.
\<close>

definition float_mul_int :: "nat \<Rightarrow> real \<Rightarrow> real" where
  "float_mul_int n f = round_double (round_double (real n) * f)"

section \<open>numpy arrays\<close>

text \<open>
  An \<^verbatim>\<open>ndarray\<close> is its shape and its buffer in row-major (C) order. Only arrays of a
  floating dtype are modelled, with exact reals as elements.
\<close>

record ndarray =
  shape :: "nat list"
  data :: "real list"

definition ndim :: "ndarray \<Rightarrow> nat" where
  "ndim a = length (shape a)"

definition wf_array :: "ndarray \<Rightarrow> bool" where
  "wf_array a = (length (data a) = prod_list (shape a))"

text \<open>Flat offset of a multi-index, and the multi-index of a flat offset.\<close>

fun ravel :: "nat list \<Rightarrow> nat list \<Rightarrow> nat" where
  "ravel (d # ds) (i # is) = i * prod_list ds + ravel ds is"
| "ravel _ _ = 0"

fun unravel :: "nat list \<Rightarrow> nat \<Rightarrow> nat list" where
  "unravel [] k = []"
| "unravel (d # ds) k = (k div prod_list ds) # unravel ds (k mod prod_list ds)"

fun valid_idx :: "nat list \<Rightarrow> nat list \<Rightarrow> bool" where
  "valid_idx [] [] = True"
| "valid_idx (d # ds) (i # is) = (i < d \<and> valid_idx ds is)"
| "valid_idx _ _ = False"

definition get :: "ndarray \<Rightarrow> nat list \<Rightarrow> real" where
  "get a idx = data a ! ravel (shape a) idx"

definition tabulate :: "nat list \<Rightarrow> (nat list \<Rightarrow> real) \<Rightarrow> ndarray" where
  "tabulate sh f = \<lparr>shape = sh, data = map (\<lambda>k. f (unravel sh k)) [0..<prod_list sh]\<rparr>"

text \<open>\<^verbatim>\<open>np.ones(sh, dtype=np.float32)\<close>\<close>

definition np_ones :: "nat list \<Rightarrow> ndarray" where
  "np_ones sh = \<lparr>shape = sh, data = replicate (prod_list sh) 1\<rparr>"

text \<open>\<^verbatim>\<open>a.shape[k]\<close>: a tuple index out of range raises.\<close>

definition shape_at :: "ndarray \<Rightarrow> nat \<Rightarrow> exn + nat" where
  "shape_at a k = (if k < length (shape a) then Inr (shape a ! k)
                   else Inl (IndexError ''tuple index out of range''))"

subsection \<open>Broadcasting\<close>

text \<open>
  A ufunc writing into an existing array (\<^verbatim>\<open>a -= m\<close>) needs the operand's shape to broadcast
  to the array's own shape: aligned from the right, every dimension equal or 1.
\<close>

definition broadcastable :: "nat list \<Rightarrow> nat list \<Rightarrow> bool" where
  "broadcastable src dst =
     (length src \<le> length dst \<and>
      list_all2 (\<lambda>s d. s = d \<or> s = 1) src (drop (length dst - length src) dst))"

text \<open>The element of \<open>v\<close> that broadcasting puts at index \<open>idx\<close> of the larger array.\<close>

definition bget :: "ndarray \<Rightarrow> nat list \<Rightarrow> real" where
  "bget v idx =
     get v (map2 (\<lambda>s i. if s = 1 then 0 else i) (shape v)
                 (drop (length idx - length (shape v)) idx))"

text \<open>
  Item assignment also accepts a value of higher rank whose extra leading dimensions
  are all 1: numpy strips them before broadcasting.
\<close>

fun strip_ones :: "nat list \<Rightarrow> nat \<Rightarrow> nat list" where
  "strip_ones [] r = []"
| "strip_ones (d # ds) r = (if r < length (d # ds) \<and> d = 1 then strip_ones ds r else d # ds)"

definition assignable :: "ndarray \<Rightarrow> nat list \<Rightarrow> bool" where
  "assignable v target = broadcastable (strip_ones (shape v) (length target)) target"

definition aget :: "ndarray \<Rightarrow> nat list \<Rightarrow> real" where
  "aget v idx = bget (v\<lparr>shape := strip_ones (shape v) (length idx)\<rparr>) idx"

subsection \<open>The numpy calls of \<^verbatim>\<open>jacobian\<close>\<close>

text \<open>
  \<^verbatim>\<open>x_data -= self.input_mean\<close> and \<^verbatim>\<open>x_data /= self.input_std\<close>: the new contents of the
  array, or the exception. The elementwise results are the exact differences and
  quotients: rounding of array elements is not modelled. Division by zero gives numpy's
  inf or NaN and no exception; the real-valued model has no such values and the quotient
  is then HOL's.
\<close>

text \<open>
  \<^verbatim>\<open>input_mean\<close> and \<^verbatim>\<open>input_std\<close> are \<^verbatim>\<open>None\<close> until a normalizer has run, then a scalar
  or an array of per-feature statistics.
\<close>

datatype pystat = StatNone | StatScalar real | StatArray ndarray

definition np_inplace :: "(real \<Rightarrow> real \<Rightarrow> real) \<Rightarrow> ndarray \<Rightarrow> pystat \<Rightarrow> exn + ndarray" where
  "np_inplace f a st =
     (case st of
        StatNone \<Rightarrow> Inl (TypeError ''unsupported operand type(s): ndarray and NoneType'')
      | StatScalar c \<Rightarrow> Inr (a\<lparr>data := map (\<lambda>v. f v c) (data a)\<rparr>)
      | StatArray m \<Rightarrow>
          if broadcastable (shape m) (shape a)
          then Inr (tabulate (shape a) (\<lambda>idx. f (get a idx) (bget m idx)))
          else Inl (ValueError ''operands could not be broadcast together''))"

text \<open>
  \<^verbatim>\<open>np.atleast_3d\<close>: shape \<open>()\<close> becomes \<open>(1,1,1)\<close>, \<open>(N,)\<close> becomes \<open>(1,N,1)\<close>, \<open>(M,N)\<close> becomes
  \<open>(M,N,1)\<close>, anything of rank 3 or more is kept. The result is a view on the same buffer;
  the source only reads it, so the model takes the value.
\<close>

definition np_atleast_3d :: "ndarray \<Rightarrow> ndarray" where
  "np_atleast_3d a =
     (case shape a of
        [] \<Rightarrow> a\<lparr>shape := [1, 1, 1]\<rparr>
      | [n] \<Rightarrow> a\<lparr>shape := [1, n, 1]\<rparr>
      | [m, n] \<Rightarrow> a\<lparr>shape := [m, n, 1]\<rparr>
      | _ \<Rightarrow> a)"

text \<open>
  \<^verbatim>\<open>x_data[:, :, :, np.newaxis]\<close>: three slices need three axes, otherwise numpy raises
  ``too many indices''; the new axis of size 1 comes fourth.
\<close>

definition newaxis3 :: "ndarray \<Rightarrow> exn + ndarray" where
  "newaxis3 a =
     (if ndim a < 3 then Inl (IndexError ''too many indices for array'')
      else Inr (a\<lparr>shape := take 3 (shape a) @ [1] @ drop 3 (shape a)\<rparr>))"

text \<open>\<^verbatim>\<open>x_data[i:i + 1]\<close>: the rows from \<open>i\<close> to \<open>i + 1\<close>, clipped to the array.\<close>

definition slice_row :: "ndarray \<Rightarrow> nat \<Rightarrow> exn + ndarray" where
  "slice_row a i =
     (case shape a of
        [] \<Rightarrow> Inl (IndexError ''too many indices for array'')
      | n # ds \<Rightarrow>
          Inr \<lparr>shape = (min (i + 1) n - min i n) # ds,
               data = take ((min (i + 1) n - min i n) * prod_list ds)
                           (drop (i * prod_list ds) (data a))\<rparr>)"

text \<open>
  \<^verbatim>\<open>jacobian[:, :, i] = v\<close> on the rank-3 result and \<^verbatim>\<open>jacobian[:, :, :, :, i] = v\<close> on the
  rank-5 result: every leading axis is sliced whole and \<open>i\<close> indexes the last axis.
\<close>

definition np_setitem_sample :: "ndarray \<Rightarrow> nat \<Rightarrow> ndarray \<Rightarrow> exn + ndarray" where
  "np_setitem_sample J i v =
     (if shape J = [] then Inl (IndexError ''too many indices for array'')
      else if last (shape J) \<le> i then Inl (IndexError ''index is out of bounds'')
      else if \<not> assignable v (butlast (shape J))
      then Inl (ValueError ''could not broadcast input array'')
      else Inr (tabulate (shape J)
                  (\<lambda>idx. if last idx = i then aget v (butlast idx) else get J idx)))"

text \<open>
  \<^verbatim>\<open>jacobian[:, :, :, 0, i] = v\<close> on the rank-5 result: axis 3 (the channel) is indexed by 0
  and axis 4 (the sample) by \<open>i\<close>.
\<close>

definition np_setitem_chan0 :: "ndarray \<Rightarrow> nat \<Rightarrow> ndarray \<Rightarrow> exn + ndarray" where
  "np_setitem_chan0 J i v =
     (if length (shape J) \<noteq> 5 then Inl (IndexError ''too many indices for array'')
      else if shape J ! 3 = 0 \<or> shape J ! 4 \<le> i then Inl (IndexError ''index is out of bounds'')
      else if \<not> assignable v (take 3 (shape J))
      then Inl (ValueError ''could not broadcast input array'')
      else Inr (tabulate (shape J)
                  (\<lambda>idx. if idx ! 3 = 0 \<and> idx ! 4 = i then aget v (take 3 idx) else get J idx)))"

text \<open>
  \<^verbatim>\<open>np.mean(jacobian, axis=-1)\<close>: in the row-major buffer the last axis is contiguous, so
  every run of \<open>S\<close> consecutive elements is reduced to its sum divided by \<open>S\<close>. With \<open>S = 0\<close>
  numpy yields NaN (and a warning), which the reals do not have.
\<close>

definition np_mean_last :: "ndarray \<Rightarrow> exn + ndarray" where
  "np_mean_last J =
     (if shape J = [] then Inl (ValueError ''axis -1 is out of bounds for array of dimension 0'')
      else Inr \<lparr>shape = butlast (shape J),
                data = map (\<lambda>k. sum_list (take (last (shape J)) (drop (k * last (shape J)) (data J)))
                                 / real (last (shape J)))
                           [0..<prod_list (butlast (shape J))]\<rparr>)"

text \<open>The elementwise arithmetic mean over the sample axis, as the specification words it.\<close>

definition spec_mean :: "ndarray \<Rightarrow> nat list \<Rightarrow> real" where
  "spec_mean J idx =
     (\<Sum>s\<leftarrow>[0..<last (shape J)]. get J (idx @ [s])) / real (last (shape J))"

section \<open>The model object\<close>

text \<open>
  A Keras layer as far as the source reads it: its symbolic input and output tensors and
  its declared input shape (\<^verbatim>\<open>None\<close> for the batch axis). A model is looked up by layer name.
\<close>

datatype sym = Tensor string | Strided sym nat nat | Gradient sym sym | Stacked "sym list"

record keras_layer =
  layer_input :: sym
  layer_input_shape :: "nat option list"
  layer_output :: sym

record keras_model =
  layers :: "(string \<times> keras_layer) list"

record neuralnet =
  name :: "string option"
  model_type :: "string option"
  model_identifier :: string
  python_info :: string
  astronn_ver :: string
  keras_ver :: string
  tf_ver :: string
  currentdir :: string
  folder_name :: "string option"
  fullfilepath :: "string option"
  batch_size :: int
  optimizer :: "string option"
  max_epochs :: "int option"
  lr :: "real option"
  val_size :: "real option"
  val_num :: "int option"
  input_shape :: pyshape
  labels_shape :: pyshape
  num_train :: "int option"
  input_mean :: pystat
  input_std :: pystat
  keras_model :: "keras_model option"
  keras_model_predict :: "keras_model option"
  hyper_txt :: "string option"

section \<open>The world outside the object\<close>

text \<open>
  Arrays are mutable objects: the heap maps object identities to arrays, \<open>nxt\<close> is the next
  unused identity. The file system is a set of directories and a map from paths to file
  contents. \<open>calls\<close> records the framework calls made (layer lookups, and session runs
  with the shape of the value fed) and \<open>stdout\<close> what was printed.
\<close>

datatype event = GetLayer string | SessionRun "nat list" | PlotModel string

record world =
  heap :: "nat \<Rightarrow> ndarray option"
  nxt :: nat
  dirs :: "string set"
  files :: "string \<Rightarrow> string option"
  calls :: "event list"
  stdout :: "string list"

definition py_print :: "string \<Rightarrow> world \<Rightarrow> world" where
  "py_print msg w = w\<lparr>stdout := stdout w @ [msg]\<rparr>"

section \<open>Rendering values as \<^verbatim>\<open>str()\<close> does\<close>

fun show_nat :: "nat \<Rightarrow> string" where
  "show_nat n = (if n < 10 then [''0123456789'' ! n]
                 else show_nat (n div 10) @ [''0123456789'' ! (n mod 10)])"

declare show_nat.simps [simp del]

definition show_int :: "int \<Rightarrow> string" where
  "show_int i = (if i < 0 then CHR ''-'' # show_nat (nat (- i)) else show_nat (nat i))"

fun show_items :: "nat list \<Rightarrow> string" where
  "show_items [] = []"
| "show_items [x] = show_nat x"
| "show_items (x # y # ys) = show_nat x @ '', '' @ show_items (y # ys)"

definition show_tuple :: "nat list \<Rightarrow> string" where
  "show_tuple xs = (case xs of [] \<Rightarrow> ''()'' | [x] \<Rightarrow> ''('' @ show_nat x @ '',)''
                    | _ \<Rightarrow> ''('' @ show_items xs @ '')'')"

definition show_shape :: "pyshape \<Rightarrow> string" where
  "show_shape s = (case s of PyNone \<Rightarrow> ''None'' | PyInt i \<Rightarrow> show_int i | PyTuple t \<Rightarrow> show_tuple t)"

definition show_opt_int :: "int option \<Rightarrow> string" where
  "show_opt_int x = (case x of None \<Rightarrow> ''None'' | Some i \<Rightarrow> show_int i)"

definition show_opt_str :: "string option \<Rightarrow> string" where
  "show_opt_str x = (case x of None \<Rightarrow> ''None'' | Some s \<Rightarrow> s)"

section \<open>pre\_training\_checklist\_master\<close>

text \<open>
  Lines 105--132. The method mutates \<^verbatim>\<open>self\<close>; it returns the exception raised (if any), the
  object as the call leaves it, and the world. \<^verbatim>\<open>input_data.shape[0]\<close> raises on a rank-0
  array, after \<^verbatim>\<open>val_size\<close> has been defaulted. Line 108 multiplies the int row count by the
  float \<^verbatim>\<open>val_size\<close> in double precision and truncates the rounded product. Neither
  \<^verbatim>\<open>if\<close>/\<^verbatim>\<open>elif\<close> chain has an \<^verbatim>\<open>else\<close>: an unmatched rank leaves the field as it was.
\<close>

definition infer_input_shape :: "ndarray \<Rightarrow> pyshape \<Rightarrow> pyshape" where
  "infer_input_shape input_data old =
     (if ndim input_data = 1 then PyTuple [1, 1]
      else if ndim input_data = 2 then PyTuple [shape input_data ! 1, 1]
      else if ndim input_data = 3 then PyTuple [shape input_data ! 1, shape input_data ! 2, 1]
      else if ndim input_data = 4 then
        PyTuple [shape input_data ! 1, shape input_data ! 2, shape input_data ! 3]
      else old)"

definition infer_labels_shape :: "ndarray \<Rightarrow> pyshape \<Rightarrow> pyshape" where
  "infer_labels_shape labels old =
     (if ndim labels = 1 then PyInt 1
      else if ndim labels = 2 then PyInt (int (shape labels ! 1))
      else if ndim labels = 3 then PyTuple [shape labels ! 1, shape labels ! 2]
      else if ndim labels = 4 then PyTuple [shape labels ! 1, shape labels ! 2, shape labels ! 3]
      else old)"

definition pre_training_checklist_master ::
  "neuralnet \<Rightarrow> ndarray \<Rightarrow> ndarray \<Rightarrow> world \<Rightarrow> exn option \<times> neuralnet \<times> world" where
  "pre_training_checklist_master self input_data labels w =
     (let vs = (case val_size self of None \<Rightarrow> 0 | Some v \<Rightarrow> v);
          self1 = self\<lparr>val_size := Some vs\<rparr>
      in case shape_at input_data 0 of
           Inl e \<Rightarrow> (Some e, self1, w)
         | Inr rows \<Rightarrow>
            (let vn = py_int (float_mul_int rows vs);
                 nt = int rows - vn;
                 self2 = self1\<lparr>val_num := Some vn, num_train := Some nt\<rparr>;
                 self3 = (if input_shape self2 = PyNone
                          then self2\<lparr>input_shape := infer_input_shape input_data (input_shape self2),
                                     labels_shape := infer_labels_shape labels (labels_shape self2)\<rparr>
                          else self2)
             in (None, self3,
                 py_print (''Number of Training Data: '' @ show_int nt
                           @ '', Number of Validation Data: '' @ show_int vn) w)))"

text \<open>The rank-to-shape tables as the specification words them (section 4.1).\<close>

fun spec_input_shape :: "nat list \<Rightarrow> pyshape" where
  "spec_input_shape [n] = PyTuple [1, 1]"
| "spec_input_shape [n, cols] = PyTuple [cols, 1]"
| "spec_input_shape [n, d1, d2] = PyTuple [d1, d2, 1]"
| "spec_input_shape [n, d1, d2, d3] = PyTuple [d1, d2, d3]"
| "spec_input_shape _ = PyNone"

fun spec_labels_shape :: "nat list \<Rightarrow> pyshape" where
  "spec_labels_shape [n] = PyInt 1"
| "spec_labels_shape [n, cols] = PyInt (int cols)"
| "spec_labels_shape [n, d1, d2] = PyTuple [d1, d2]"
| "spec_labels_shape [n, d1, d2, d3] = PyTuple [d1, d2, d3]"
| "spec_labels_shape _ = PyNone"

section \<open>What the class calls and does not define\<close>

text \<open>
  TensorFlow's graph construction and session, Keras' plotting, \<^verbatim>\<open>folder_runnum\<close>, the
  subclass hook \<^verbatim>\<open>post_training_checklist_child\<close>, the CSV logger and the text of a float are
  outside the class: they are parameters. Each may raise, and those that act on the
  world return the new one. \<^verbatim>\<open>session_run fetch placeholder value\<close> stands for
  \<^verbatim>\<open>get_session().run(fetch, feed_dict={placeholder: value})\<close>; it is a function of its
  arguments, so a graph evaluates the same way each time it is fed the same sample.
\<close>

record env =
  tf_gradients :: "sym \<Rightarrow> sym \<Rightarrow> exn + sym"
  tf_stack_squeeze :: "sym list \<Rightarrow> exn + sym"
  session_run :: "sym \<Rightarrow> sym \<Rightarrow> ndarray \<Rightarrow> exn + ndarray"
  folder_runnum :: "world \<Rightarrow> string"
  keras_plot_model :: "string \<Rightarrow> world \<Rightarrow> exn option \<times> world"
  post_training_checklist_child :: "neuralnet \<Rightarrow> world \<Rightarrow> exn option \<times> neuralnet \<times> world"
  virtual_cvslogger :: "(string \<Rightarrow> world \<Rightarrow> exn option \<times> world) option"
  repr_float :: "real \<Rightarrow> string"

section \<open>jacobian\<close>

subsection \<open>Objects on the heap\<close>

definition alloc :: "ndarray \<Rightarrow> world \<Rightarrow> nat \<times> world" where
  "alloc a w = (nxt w, w\<lparr>heap := (heap w)(nxt w := Some a), nxt := Suc (nxt w)\<rparr>)"

definition store :: "nat \<Rightarrow> ndarray \<Rightarrow> world \<Rightarrow> world" where
  "store r a w = w\<lparr>heap := (heap w)(r := Some a)\<rparr>"

text \<open>
  A Python reference always denotes a live object; the error branch makes the model
  total on identities that were never allocated.
\<close>

definition deref :: "nat \<Rightarrow> world \<Rightarrow> exn + ndarray" where
  "deref r w = (case heap w r of None \<Rightarrow> Inl (FrameworkError ''no such object'')
                | Some a \<Rightarrow> Inr a)"

subsection \<open>Lines 212--214: copy and normalise\<close>

text \<open>
  \<^verbatim>\<open>np.array(x)\<close> makes a new array object holding a copy of \<open>x\<close>; the two in-place
  operations then write to that object. The result is its identity and final contents.
\<close>

definition normalize_copy :: "neuralnet \<Rightarrow> nat \<Rightarrow> world \<Rightarrow> (exn + nat \<times> ndarray) \<times> world" where
  "normalize_copy self x w =
     (case deref x w of
        Inl e \<Rightarrow> (Inl e, w)
      | Inr xv \<Rightarrow>
         (case alloc xv w of (x_data, w1) \<Rightarrow>
            (case np_inplace (-) xv (input_mean self) of
               Inl e \<Rightarrow> (Inl e, w1)
             | Inr x1 \<Rightarrow>
                (case np_inplace (/) x1 (input_std self) of
                   Inl e \<Rightarrow> (Inl e, store x_data x1 w1)
                 | Inr x2 \<Rightarrow> (Inr (x_data, x2), store x_data x2 (store x_data x1 w1))))))"

subsection \<open>Lines 216--221: the input layer\<close>

text \<open>
  \<^verbatim>\<open>model.get_layer(name)\<close> raises a value error for an unknown name; on \<^verbatim>\<open>None\<close> in place
  of a model the attribute access raises \<^verbatim>\<open>AttributeError\<close>.
\<close>

definition get_layer :: "keras_model option \<Rightarrow> string \<Rightarrow> world \<Rightarrow> (exn + keras_layer) \<times> world" where
  "get_layer m n w =
     (case m of
        None \<Rightarrow> (Inl (AttributeError ''NoneType object has no attribute get_layer''), w)
      | Some km \<Rightarrow>
         (case map_of (layers km) n of
            None \<Rightarrow> Inl (ValueError (''No such layer: '' @ n))
          | Some l \<Rightarrow> Inr l,
          w\<lparr>calls := calls w @ [GetLayer n]\<rparr>))"

text \<open>The two statements of either arm of the \<^verbatim>\<open>try\<close>: the layer is looked up twice.\<close>

definition input_of :: "keras_model option \<Rightarrow> world \<Rightarrow> (exn + sym \<times> nat option list) \<times> world" where
  "input_of m w =
     (case get_layer m ''input'' w of
        (Inl e, w1) \<Rightarrow> (Inl e, w1)
      | (Inr l1, w1) \<Rightarrow>
         (case get_layer m ''input'' w1 of
            (Inl e, w2) \<Rightarrow> (Inl e, w2)
          | (Inr l2, w2) \<Rightarrow> (Inr (layer_input l1, layer_input_shape l2), w2)))"

definition lookup_input :: "neuralnet \<Rightarrow> world \<Rightarrow> (exn + sym \<times> nat option list) \<times> world" where
  "lookup_input self w =
     (case input_of (keras_model_predict self) w of
        (Inl (AttributeError msg), w1) \<Rightarrow> input_of (keras_model self) w1
      | r \<Rightarrow> r)"

subsection \<open>The gradient graph\<close>

text \<open>
  \<^verbatim>\<open>range(self.labels_shape)\<close> needs an int (a negative one gives the empty range);
  a dimension given to \<^verbatim>\<open>np.ones\<close> needs a non-negative int.
\<close>

definition py_range :: "pyshape \<Rightarrow> exn + nat list" where
  "py_range s = (case s of PyInt l \<Rightarrow> Inr [0..<nat l]
                 | _ \<Rightarrow> Inl (TypeError ''object cannot be interpreted as an integer''))"

definition dim_of :: "pyshape \<Rightarrow> exn + nat" where
  "dim_of s = (case s of
                 PyInt l \<Rightarrow> if l < 0 then Inl (ValueError ''negative dimensions are not allowed'')
                            else Inr (nat l)
               | _ \<Rightarrow> Inl (TypeError ''object cannot be interpreted as an integer''))"

text \<open>
  The loop over \<open>j\<close>: each round looks the output layer up in \<^verbatim>\<open>self.keras_model\<close> and
  appends \<^verbatim>\<open>tf.gradients(output[0, j], input_tens)\<close>.
\<close>

fun build_grad_list ::
  "env \<Rightarrow> neuralnet \<Rightarrow> sym \<Rightarrow> nat list \<Rightarrow> world \<Rightarrow> (exn + sym list) \<times> world" where
  "build_grad_list ev self input_tens [] w = (Inr [], w)"
| "build_grad_list ev self input_tens (j # js) w =
     (case get_layer (keras_model self) ''output'' w of
        (Inl e, w1) \<Rightarrow> (Inl e, w1)
      | (Inr out, w1) \<Rightarrow>
         (case tf_gradients ev (Strided (layer_output out) 0 j) input_tens of
            Inl e \<Rightarrow> (Inl e, w1)
          | Inr g \<Rightarrow>
             (case build_grad_list ev self input_tens js w1 of
                (Inl e, w2) \<Rightarrow> (Inl e, w2)
              | (Inr gs, w2) \<Rightarrow> (Inr (g # gs), w2))))"

definition final_stack_of :: "env \<Rightarrow> neuralnet \<Rightarrow> sym \<Rightarrow> world \<Rightarrow> (exn + sym) \<times> world" where
  "final_stack_of ev self input_tens w =
     (case py_range (labels_shape self) of
        Inl e \<Rightarrow> (Inl e, w)
      | Inr js \<Rightarrow>
         (case build_grad_list ev self input_tens js w of
            (Inl e, w1) \<Rightarrow> (Inl e, w1)
          | (Inr grad_list, w1) \<Rightarrow> (tf_stack_squeeze ev grad_list, w1)))"

subsection \<open>The loop over the samples\<close>

text \<open>
  One round per sample \<open>i\<close>: slice the sample out, run the graph on it, and assign the
  result into the output array \<open>r\<close> with \<open>setitem\<close>, which is \<open>np_setitem_sample\<close> for
  \<^verbatim>\<open>jacobian[:, :, i]\<close> and \<^verbatim>\<open>jacobian[:, :, :, :, i]\<close> and \<open>np_setitem_chan0\<close> for
  \<^verbatim>\<open>jacobian[:, :, :, 0, i]\<close>.
\<close>

fun jacobian_loop ::
  "env \<Rightarrow> (ndarray \<Rightarrow> nat \<Rightarrow> ndarray \<Rightarrow> exn + ndarray) \<Rightarrow> sym \<Rightarrow> sym \<Rightarrow> ndarray \<Rightarrow> nat
     \<Rightarrow> nat list \<Rightarrow> world \<Rightarrow> exn option \<times> world" where
  "jacobian_loop ev setitem final_stack input_tens x_data r [] w = (None, w)"
| "jacobian_loop ev setitem final_stack input_tens x_data r (i # is) w =
     (case slice_row x_data i of
        Inl e \<Rightarrow> (Some e, w)
      | Inr x_in \<Rightarrow>
         (case session_run ev final_stack input_tens x_in of
            Inl e \<Rightarrow> (Some e, w\<lparr>calls := calls w @ [SessionRun (shape x_in)]\<rparr>)
          | Inr g \<Rightarrow>
             (case deref r (w\<lparr>calls := calls w @ [SessionRun (shape x_in)]\<rparr>) of
                Inl e \<Rightarrow> (Some e, w\<lparr>calls := calls w @ [SessionRun (shape x_in)]\<rparr>)
              | Inr J \<Rightarrow>
                 (case setitem J i g of
                    Inl e \<Rightarrow> (Some e, w\<lparr>calls := calls w @ [SessionRun (shape x_in)]\<rparr>)
                  | Inr J' \<Rightarrow>
                     jacobian_loop ev setitem final_stack input_tens x_data r is
                       (store r J' (w\<lparr>calls := calls w @ [SessionRun (shape x_in)]\<rparr>))))))"

subsection \<open>Lines 225--237: a model that declares a rank-3 input\<close>

definition jacobian_rank3 :: "env \<Rightarrow> neuralnet \<Rightarrow> sym \<Rightarrow> ndarray \<Rightarrow> world \<Rightarrow> (exn + nat) \<times> world" where
  "jacobian_rank3 ev self input_tens x_norm w =
     (let x_data = np_atleast_3d x_norm in
      case final_stack_of ev self input_tens w of
        (Inl e, w1) \<Rightarrow> (Inl e, w1)
      | (Inr final_stack, w1) \<Rightarrow>
         (case dim_of (labels_shape self) of
            Inl e \<Rightarrow> (Inl e, w1)
          | Inr l \<Rightarrow>
             (case alloc (np_ones [l, shape x_data ! 1, shape x_data ! 0]) w1 of (r, w2) \<Rightarrow>
                (case jacobian_loop ev np_setitem_sample final_stack input_tens x_data r
                        [0..<shape x_data ! 0] w2 of
                   (Some e, w3) \<Rightarrow> (Inl e, w3)
                 | (None, w3) \<Rightarrow> (Inr r, w3)))))"

subsection \<open>Lines 239--259: a model that declares a rank-4 input\<close>

text \<open>
  After the \<^verbatim>\<open>monoflag\<close> step the data has rank 4 or more, or the indexing has raised, so
  the four \<^verbatim>\<open>x_data.shape[k]\<close> are in range.
\<close>

definition jacobian_rank4 :: "env \<Rightarrow> neuralnet \<Rightarrow> sym \<Rightarrow> ndarray \<Rightarrow> world \<Rightarrow> (exn + nat) \<times> world" where
  "jacobian_rank4 ev self input_tens x_norm w =
     (let monoflag = (length (shape x_norm) < 4) in
      case (if monoflag then newaxis3 x_norm else Inr x_norm) of
        Inl e \<Rightarrow> (Inl e, w)
      | Inr x_data \<Rightarrow>
         (case dim_of (labels_shape self) of
            Inl e \<Rightarrow> (Inl e, w)
          | Inr l \<Rightarrow>
             (case alloc (np_ones [l, shape x_data ! 1, shape x_data ! 2, shape x_data ! 3,
                                   shape x_data ! 0]) w of (r, w1) \<Rightarrow>
                (case final_stack_of ev self input_tens w1 of
                   (Inl e, w2) \<Rightarrow> (Inl e, w2)
                 | (Inr final_stack, w2) \<Rightarrow>
                    (case jacobian_loop ev (if monoflag then np_setitem_chan0 else np_setitem_sample)
                            final_stack input_tens x_data r [0..<shape x_data ! 0] w2 of
                       (Some e, w3) \<Rightarrow> (Inl e, w3)
                     | (None, w3) \<Rightarrow> (Inr r, w3))))))"

subsection \<open>The method\<close>

text \<open>
  Lines 209--262: everything up to the output array. \<open>x\<close> is \<^verbatim>\<open>None\<close> or the identity of
  the caller's array; the result is the identity of the output array.
\<close>

definition jacobian_body :: "env \<Rightarrow> neuralnet \<Rightarrow> nat option \<Rightarrow> world \<Rightarrow> (exn + nat) \<times> world" where
  "jacobian_body ev self x w =
     (case x of
        None \<Rightarrow> (Inl (ValueError ''Please provide data to calculate the jacobian''), w)
      | Some xa \<Rightarrow>
         (case normalize_copy self xa w of
            (Inl e, w1) \<Rightarrow> (Inl e, w1)
          | (Inr (x_data, x_norm), w1) \<Rightarrow>
             (case lookup_input self w1 of
                (Inl e, w2) \<Rightarrow> (Inl e, w2)
              | (Inr (input_tens, input_shape_expectation), w2) \<Rightarrow>
                 if length input_shape_expectation = 3
                 then jacobian_rank3 ev self input_tens x_norm w2
                 else if length input_shape_expectation = 4
                 then jacobian_rank4 ev self input_tens x_norm w2
                 else (Inl (ValueError ''Input data shape do not match neural network expectation''),
                       w2))))"

text \<open>
  Lines 264--269: \<^verbatim>\<open>np.mean\<close> makes a new array; the elapsed time in the printed line is
  wall-clock time and is left out of the message.
\<close>

definition jacobian :: "env \<Rightarrow> neuralnet \<Rightarrow> nat option \<Rightarrow> bool \<Rightarrow> world \<Rightarrow> (exn + nat) \<times> world" where
  "jacobian ev self x mean_output w =
     (case jacobian_body ev self x w of
        (Inl e, w1) \<Rightarrow> (Inl e, w1)
      | (Inr r, w1) \<Rightarrow>
         if mean_output
         then (case deref r w1 of
                 Inl e \<Rightarrow> (Inl e, w1)
               | Inr J \<Rightarrow>
                  (case np_mean_last J of
                     Inl e \<Rightarrow> (Inl e, w1)
                   | Inr m \<Rightarrow>
                      (case alloc m w1 of (r', w2) \<Rightarrow>
                         (Inr r', py_print ''Finished gradient calculation'' w2))))
         else (Inr r, py_print ''Finished gradient calculation'' w1))"

section \<open>save\<close>

subsection \<open>Paths and files\<close>

text \<open>
  \<^verbatim>\<open>os.path.join\<close> on POSIX for two components: an absolute second component replaces
  the first; otherwise they are joined with one slash unless the first already ends in
  one. Paths are compared as strings.
\<close>

definition os_path_join :: "string \<Rightarrow> string \<Rightarrow> string" where
  "os_path_join a b =
     (if b \<noteq> [] \<and> hd b = CHR ''/'' then b
      else if a = [] \<or> last a = CHR ''/'' then a @ b
      else a @ ''/'' @ b)"

definition os_path_exists :: "string \<Rightarrow> world \<Rightarrow> bool" where
  "os_path_exists p w = (p \<in> dirs w \<or> files w p \<noteq> None)"

definition os_path_isfile :: "string \<Rightarrow> world \<Rightarrow> bool" where
  "os_path_isfile p w = (files w p \<noteq> None)"

text \<open>\<^verbatim>\<open>os.makedirs\<close>, called only on a path that does not exist.\<close>

definition os_makedirs :: "string \<Rightarrow> world \<Rightarrow> world" where
  "os_makedirs p w = w\<lparr>dirs := insert p (dirs w)\<rparr>"

text \<open>
  \<^verbatim>\<open>open(path, mode)\<close> for a path inside directory \<open>dir\<close> (the model does not parse paths,
  so the directory is passed alongside). Mode \<^verbatim>\<open>'w'\<close> creates the file or empties it, mode
  \<^verbatim>\<open>'a'\<close> creates it if missing and keeps its contents otherwise. Opening fails when the
  directory is missing or the path is itself a directory.
\<close>

datatype open_mode = ModeW | ModeA

definition py_open :: "string \<Rightarrow> string \<Rightarrow> open_mode \<Rightarrow> world \<Rightarrow> exn option \<times> world" where
  "py_open dir path mode w =
     (if dir \<notin> dirs w then (Some (OSError ''No such file or directory''), w)
      else if path \<in> dirs w then (Some (OSError ''Is a directory''), w)
      else case mode of
             ModeW \<Rightarrow> (None, w\<lparr>files := (files w)(path := Some [])\<rparr>)
           | ModeA \<Rightarrow> (None, case files w path of
                                None \<Rightarrow> w\<lparr>files := (files w)(path := Some [])\<rparr>
                              | Some c \<Rightarrow> w))"

text \<open>
  \<^verbatim>\<open>f.write(s)\<close> puts \<open>s\<close> at the end of the file. Buffering is not modelled: what is
  written is in the file at once.
\<close>

definition file_write :: "string \<Rightarrow> string \<Rightarrow> world \<Rightarrow> world" where
  "file_write path txt w =
     w\<lparr>files := (files w)(path := Some ((case files w path of None \<Rightarrow> [] | Some c \<Rightarrow> c) @ txt))\<rparr>"

subsection \<open>Lines 160--176: the key/value lines\<close>

definition newline :: string where
  "newline = [CHR 0x0A]"

definition show_opt_float :: "env \<Rightarrow> real option \<Rightarrow> string" where
  "show_opt_float ev x = (case x of None \<Rightarrow> ''None'' | Some f \<Rightarrow> repr_float ev f)"

text \<open>\<^verbatim>\<open>self.optimizer.__class__.__name__\<close>: the class of \<^verbatim>\<open>None\<close> is \<^verbatim>\<open>NoneType\<close>.\<close>

definition optimizer_class_name :: "neuralnet \<Rightarrow> string" where
  "optimizer_class_name self = (case optimizer self of None \<Rightarrow> ''NoneType'' | Some c \<Rightarrow> c)"

definition hyper_lines :: "env \<Rightarrow> neuralnet \<Rightarrow> string list" where
  "hyper_lines ev self =
     [''Model: '' @ show_opt_str (name self) @ '' '' @ newline,
      ''Model Type: '' @ show_opt_str (model_type self) @ '' '' @ newline,
      ''astroNN identifier: '' @ model_identifier self @ '' '' @ newline,
      ''Python Version: '' @ python_info self @ '' '' @ newline,
      ''astroNN Version: '' @ astronn_ver self @ '' '' @ newline,
      ''Keras Version: '' @ keras_ver self @ '' '' @ newline,
      ''Tensorflow Version: '' @ tf_ver self @ '' '' @ newline,
      ''Folder Name: '' @ show_opt_str (folder_name self) @ '' '' @ newline,
      ''Batch size: '' @ show_int (batch_size self) @ '' '' @ newline,
      ''Optimizer: '' @ optimizer_class_name self @ '' '' @ newline,
      ''Maximum Epochs: '' @ show_opt_int (max_epochs self) @ '' '' @ newline,
      ''Learning Rate: '' @ show_opt_float ev (lr self) @ '' '' @ newline,
      ''Validation Size: '' @ show_opt_float ev (val_size self) @ '' '' @ newline,
      ''Input Shape: '' @ show_shape (input_shape self) @ '' '' @ newline,
      ''Label Shape: '' @ show_shape (labels_shape self) @ '' '' @ newline,
      ''Number of Training Data: '' @ show_opt_int (num_train self) @ '' '' @ newline,
      ''Number of Validation Data: '' @ show_opt_int (val_num self) @ '' '' @ newline]"

subsection \<open>Lines 141--176: folder and hyperparameter file\<close>

text \<open>
  Lines 142--146: an explicit name wins; otherwise the folder already set is kept; only
  when neither exists a run-numbered name is generated.
\<close>

definition resolve_folder :: "env \<Rightarrow> neuralnet \<Rightarrow> string option \<Rightarrow> world \<Rightarrow> string" where
  "resolve_folder ev self nm w =
     (case nm of
        Some n \<Rightarrow> n
      | None \<Rightarrow> (case folder_name self of None \<Rightarrow> folder_runnum ev w | Some f \<Rightarrow> f))"

text \<open>
  Lines 153--159: an existing file is opened for appending and gets a newline and the
  marker, each with its own \<^verbatim>\<open>write\<close>; otherwise the file is opened for writing.
\<close>

definition open_hyper_txt :: "string \<Rightarrow> string \<Rightarrow> world \<Rightarrow> exn option \<times> world" where
  "open_hyper_txt dir txt_file_path w =
     (if os_path_isfile txt_file_path w
      then (case py_open dir txt_file_path ModeA w of
              (Some e, w1) \<Rightarrow> (Some e, w1)
            | (None, w1) \<Rightarrow>
                (None, file_write txt_file_path ''======Another Run======''
                         (file_write txt_file_path newline w1)))
      else py_open dir txt_file_path ModeW w)"

definition save_hyper_txt ::
  "env \<Rightarrow> neuralnet \<Rightarrow> string option \<Rightarrow> world \<Rightarrow> exn option \<times> neuralnet \<times> world" where
  "save_hyper_txt ev self nm w =
     (let folder = resolve_folder ev self nm w;
          self1 = self\<lparr>folder_name := Some folder\<rparr>;
          dir = os_path_join (currentdir self1) folder;
          w1 = (if \<not> os_path_exists dir w then os_makedirs dir w else w);
          self2 = self1\<lparr>fullfilepath := Some (os_path_join (currentdir self1) (folder @ ''/''))\<rparr>;
          txt_file_path = os_path_join (currentdir self1) (folder @ ''/'') @ ''hyperparameter.txt''
      in case open_hyper_txt dir txt_file_path w1 of
           (Some e, w2) \<Rightarrow> (Some e, self2, w2)
         | (None, w2) \<Rightarrow>
             (None, self2\<lparr>hyper_txt := Some txt_file_path\<rparr>,
              fold (file_write txt_file_path)
                   (hyper_lines ev (self2\<lparr>hyper_txt := Some txt_file_path\<rparr>)) w2))"

subsection \<open>Lines 185--193: plot\_model\<close>

text \<open>
  \<^verbatim>\<open>except ImportError or ModuleNotFoundError\<close> is \<^verbatim>\<open>except ImportError\<close>; any other
  exception of the plotting call propagates.
\<close>

definition plot_model :: "env \<Rightarrow> neuralnet \<Rightarrow> world \<Rightarrow> exn option \<times> world" where
  "plot_model ev self w =
     (case keras_plot_model ev
             (case fullfilepath self of None \<Rightarrow> ''model.png'' | Some p \<Rightarrow> p @ ''model.png'') w of
        (Some (ImportError msg), w1) \<Rightarrow>
          (None, py_print
             ''Skipped plot_model! graphviz and pydot_ng are required to plot the model architecture''
             w1)
      | r \<Rightarrow> r)"

subsection \<open>The method\<close>

text \<open>
  Lines 140--183: the hyperparameter file, then the optional plot, the subclass hook and
  the logger. \<^verbatim>\<open>self.virtual_cvslogger\<close> is \<^verbatim>\<open>None\<close> until training has set it.
\<close>

definition save ::
  "env \<Rightarrow> neuralnet \<Rightarrow> string option \<Rightarrow> bool \<Rightarrow> world \<Rightarrow> exn option \<times> neuralnet \<times> world" where
  "save ev self nm model_plot w =
     (case save_hyper_txt ev self nm w of
        (Some e, self1, w1) \<Rightarrow> (Some e, self1, w1)
      | (None, self1, w1) \<Rightarrow>
         (case (if model_plot then plot_model ev self1 w1 else (None, w1)) of
            (Some e, w2) \<Rightarrow> (Some e, self1, w2)
          | (None, w2) \<Rightarrow>
             (case post_training_checklist_child ev self1 w2 of
                (Some e, self2, w3) \<Rightarrow> (Some e, self2, w3)
              | (None, self2, w3) \<Rightarrow>
                 (case virtual_cvslogger ev of
                    None \<Rightarrow> (Some (AttributeError ''NoneType object has no attribute savefile''),
                             self2, w3)
                  | Some savefile \<Rightarrow>
                     (case savefile (show_opt_str (folder_name self2)) w3 of
                        (e, w4) \<Rightarrow> (e, self2, w4))))))"

text \<open>
  A freshly constructed object (\<^verbatim>\<open>__init__\<close>, lines 32--85) and an empty world. The class
  name, the version strings and the working directory are those of one installation.
\<close>

definition init_neuralnet :: neuralnet where
  "init_neuralnet = \<lparr>name = None, model_type = None, model_identifier = ''NeuralNetMaster'',
     python_info = ''3.6'', astronn_ver = ''0.9'', keras_ver = ''2.1'', tf_ver = ''1.5'',
     currentdir = ''/home/user'', folder_name = None, fullfilepath = None, batch_size = 64,
     optimizer = None, max_epochs = None, lr = None, val_size = None, val_num = None,
     input_shape = PyNone, labels_shape = PyNone, num_train = None,
     input_mean = StatNone, input_std = StatNone,
     keras_model = None, keras_model_predict = None, hyper_txt = None\<rparr>"

definition empty_world :: world where
  "empty_world = \<lparr>heap = (\<lambda>_. None), nxt = 0, dirs = {''/home/user''}, files = (\<lambda>_. None),
     calls = [], stdout = []\<rparr>"

section \<open>Frame conditions\<close>

text \<open>Two worlds that differ at most in the record of framework calls.\<close>

definition same_but_calls :: "world \<Rightarrow> world \<Rightarrow> bool" where
  "same_but_calls w w' =
     (heap w' = heap w \<and> nxt w' = nxt w \<and> dirs w' = dirs w \<and> files w' = files w
      \<and> stdout w' = stdout w)"

text \<open>
  Every object that existed in \<open>w\<close> is unchanged in \<open>w'\<close>, and no identity was given back.
\<close>

definition keeps_old :: "world \<Rightarrow> world \<Rightarrow> bool" where
  "keeps_old w w' = (nxt w \<le> nxt w' \<and> (\<forall>a<nxt w. heap w' a = heap w a))"

section \<open>A small trained model to run the methods on\<close>

text \<open>
  A model with an input layer of the given declared shape and an output layer, and an
  environment whose session accepts a value only if it fits the declared shape (as
  TensorFlow checks a feed against its placeholder) and returns an array of the shape
  that stacking and squeezing \<open>l\<close> gradients gives, with entries that depend on the
  position and on the sample fed.
\<close>

definition demo_model :: "nat option list \<Rightarrow> keras_model" where
  "demo_model expect =
     \<lparr>layers = [(''input'', \<lparr>layer_input = Tensor ''input'', layer_input_shape = expect,
                              layer_output = Tensor ''input''\<rparr>),
                (''output'', \<lparr>layer_input = Tensor ''dense'', layer_input_shape = [None, Some 8],
                               layer_output = Tensor ''output''\<rparr>)]\<rparr>"

definition feed_ok :: "nat option list \<Rightarrow> nat list \<Rightarrow> bool" where
  "feed_ok expect sh = list_all2 (\<lambda>e d. case e of None \<Rightarrow> True | Some n \<Rightarrow> n = d) expect sh"

definition demo_session_run :: "nat option list \<Rightarrow> sym \<Rightarrow> sym \<Rightarrow> ndarray \<Rightarrow> exn + ndarray" where
  "demo_session_run expect fetch placeholder v =
     (if \<not> feed_ok expect (shape v) then Inl (ValueError ''Cannot feed value'')
      else case fetch of
             Stacked gs \<Rightarrow>
               Inr (tabulate (filter (\<lambda>d. d \<noteq> 1) (length gs # shape v))
                      (\<lambda>idx. 2 + real (sum_list idx) + sum_list (data v)))
           | _ \<Rightarrow> Inl (TypeError ''Fetch argument is not a stacked tensor''))"

definition demo_env :: "nat option list \<Rightarrow> env" where
  "demo_env expect =
     \<lparr>tf_gradients = (\<lambda>y x. Inr (Gradient y x)),
      tf_stack_squeeze = (\<lambda>gs. Inr (Stacked gs)),
      session_run = demo_session_run expect,
      folder_runnum = (\<lambda>w. ''astroNN_0101_run001''),
      keras_plot_model = (\<lambda>p w. (None, w\<lparr>calls := calls w @ [PlotModel p]\<rparr>)),
      post_training_checklist_child = (\<lambda>self w. (None, self, w)),
      virtual_cvslogger = Some (\<lambda>folder w. (None, w)),
      repr_float = (\<lambda>f. ''0.1'')\<rparr>"

definition demo_net :: "nat option list \<Rightarrow> neuralnet" where
  "demo_net expect =
     init_neuralnet\<lparr>labels_shape := PyInt 2, input_mean := StatScalar 1, input_std := StatScalar 2,
                    keras_model := Some (demo_model expect)\<rparr>"

text \<open>A world whose only object, at identity 0, is the caller's array.\<close>

definition world_with :: "ndarray \<Rightarrow> world" where
  "world_with x = empty_world\<lparr>heap := (\<lambda>_. None)(0 := Some x), nxt := 1\<rparr>"

text \<open>
  The hyperparameter file a \<^verbatim>\<open>save\<close> left behind, and a second \<^verbatim>\<open>save()\<close> on the object and
  world a first one returned.
\<close>

definition saved_text :: "exn option \<times> neuralnet \<times> world \<Rightarrow> string option" where
  "saved_text res =
     (case res of (e, self, w) \<Rightarrow>
        (case hyper_txt self of None \<Rightarrow> None | Some path \<Rightarrow> files w path))"

definition save_again :: "env \<Rightarrow> exn option \<times> neuralnet \<times> world \<Rightarrow> exn option \<times> neuralnet \<times> world" where
  "save_again ev res = (case res of (e, self, w) \<Rightarrow> save ev self None False w)"

text \<open>The shape of the array a call returned, if it returned one.\<close>

definition result_shape :: "(exn + nat) \<times> world \<Rightarrow> nat list option" where
  "result_shape res =
     (case res of (Inl e, w) \<Rightarrow> None
      | (Inr r, w) \<Rightarrow> (case heap w r of None \<Rightarrow> None | Some J \<Rightarrow> Some (shape J)))"

section \<open>Properties of pre\_training\_checklist\_master\<close>

lemma shape_at_0:
  "shape_at a 0 = (case shape a of [] \<Rightarrow> Inl (IndexError ''tuple index out of range'')
                   | n # _ \<Rightarrow> Inr n)"
  by (simp add: shape_at_def split: list.splits)

lemma infer_input_shape_spec:
  "length (shape a) \<in> {1, 2, 3, 4} \<Longrightarrow> infer_input_shape a old = spec_input_shape (shape a)"
  by (cases "shape a" rule: spec_input_shape.cases) (auto simp: infer_input_shape_def ndim_def)

lemma infer_labels_shape_spec:
  "length (shape a) \<in> {1, 2, 3, 4} \<Longrightarrow> infer_labels_shape a old = spec_labels_shape (shape a)"
  by (cases "shape a" rule: spec_labels_shape.cases) (auto simp: infer_labels_shape_def ndim_def)

text \<open>
  C6. With \<^verbatim>\<open>input_shape\<close> unset, an input array of rank 1, 2, 3 or 4 and a label array of
  rank 1, 2, 3 or 4, the call completes and leaves \<^verbatim>\<open>input_shape\<close> and \<^verbatim>\<open>labels_shape\<close> exactly
  as the specification's rank-to-shape tables say: (1,1), (cols,1), (d1,d2,1), (d1,d2,d3)
  for the input and 1, cols, (d1,d2), (d1,d2,d3) for the labels.
\<close>

theorem pre_training_infers_shapes:
  assumes "input_shape self = PyNone"
    and "length (shape input_data) \<in> {1, 2, 3, 4}"
    and "length (shape labels) \<in> {1, 2, 3, 4}"
  shows "\<exists>self' w'. pre_training_checklist_master self input_data labels w = (None, self', w')
           \<and> input_shape self' = spec_input_shape (shape input_data)
           \<and> labels_shape self' = spec_labels_shape (shape labels)"
proof -
  obtain n ds where sh: "shape input_data = n # ds"
    using assms(2) by (cases "shape input_data") auto
  show ?thesis
    using assms(1) infer_input_shape_spec[OF assms(2)] infer_labels_shape_spec[OF assms(3)]
    by (simp add: pre_training_checklist_master_def shape_at_0 sh Let_def)
qed

theorem pre_training_infers_shapes_witness:
  "\<exists>self' w'. pre_training_checklist_master init_neuralnet (np_ones [5, 7, 3]) (np_ones [5, 2])
                 empty_world = (None, self', w')
           \<and> input_shape self' = PyTuple [7, 3, 1]
           \<and> labels_shape self' = PyInt 2"
  using pre_training_infers_shapes
          [of init_neuralnet "np_ones [5, 7, 3]" "np_ones [5, 2]" empty_world]
  by (simp add: init_neuralnet_def np_ones_def)

text \<open>
  C7, as the specification states it, fails: a rank-5 input array does not make the call
  fail. No branch of the chain matches, nothing is raised, and the call completes.
\<close>

theorem pre_training_rank5_completes:
  "fst (pre_training_checklist_master init_neuralnet (np_ones [2, 1, 1, 1, 1]) (np_ones [2])
          empty_world) = None"
  by (simp add: pre_training_checklist_master_def shape_at_def np_ones_def init_neuralnet_def
      Let_def)

text \<open>
  C7, amended. With \<^verbatim>\<open>input_shape\<close> unset and an input array whose rank is not 1, 2, 3 or 4,
  \<^verbatim>\<open>input_shape\<close> stays unset. The call fails only for rank 0, with the index error of
  reading the row count; for rank 5 and above it completes normally.
\<close>

theorem pre_training_unmapped_rank:
  assumes "input_shape self = PyNone"
    and "length (shape input_data) \<notin> {1, 2, 3, 4}"
  shows "\<exists>err self' w'. pre_training_checklist_master self input_data labels w = (err, self', w')
           \<and> input_shape self' = PyNone
           \<and> err = (if shape input_data = [] then Some (IndexError ''tuple index out of range'')
                    else None)"
proof (cases "shape input_data")
  case Nil
  then show ?thesis
    using assms(1) by (simp add: pre_training_checklist_master_def shape_at_0 Let_def)
next
  case (Cons n ds)
  then show ?thesis
    using assms by (simp add: pre_training_checklist_master_def shape_at_0 Let_def
        infer_input_shape_def ndim_def)
qed

theorem pre_training_unmapped_rank_witness:
  "(\<exists>err self' w'. pre_training_checklist_master init_neuralnet (np_ones [3, 2, 2, 2, 2, 2])
                     (np_ones [3]) empty_world = (err, self', w')
           \<and> input_shape self' = PyNone \<and> err = None)
   \<and> (\<exists>err self' w'. pre_training_checklist_master init_neuralnet (np_ones [])
                     (np_ones [3]) empty_world = (err, self', w')
           \<and> input_shape self' = PyNone
           \<and> err = Some (IndexError ''tuple index out of range''))"
  using pre_training_unmapped_rank
          [of init_neuralnet "np_ones [3, 2, 2, 2, 2, 2]" "np_ones [3]" empty_world]
        pre_training_unmapped_rank [of init_neuralnet "np_ones []" "np_ones [3]" empty_world]
  by (simp add: init_neuralnet_def np_ones_def)

lemma round_half_even_nonneg: "0 \<le> x \<Longrightarrow> 0 \<le> round_half_even x"
  by (auto simp: round_half_even_def intro: add_nonneg_nonneg)

lemma scale_up_pos:
  "scale_up n m u = (m', u') \<Longrightarrow> 0 \<le> m \<Longrightarrow> 0 < u \<Longrightarrow> 0 \<le> m' \<and> 0 < u'"
  by (induction n arbitrary: m u) (auto split: if_splits)

lemma scale_down_pos:
  "scale_down n m u = (m', u') \<Longrightarrow> 0 \<le> m \<Longrightarrow> 0 < u \<Longrightarrow> 0 \<le> m' \<and> 0 < u'"
  by (induction n arbitrary: m u) (auto split: if_splits)

lemma round_double_nonneg: "0 \<le> x \<Longrightarrow> 0 \<le> round_double x"
proof (cases "x = 0")
  case True then show ?thesis by (simp add: round_double_def)
next
  case False
  assume x: "0 \<le> x"
  obtain m1 u1 where a: "scale_up 1074 \<bar>x\<bar> 1 = (m1, u1)" by force
  obtain m u where b: "scale_down 971 m1 u1 = (m, u)" by force
  from scale_up_pos[OF a] have "0 \<le> m1 \<and> 0 < u1" by simp
  with scale_down_pos[OF b] have mu: "0 \<le> m" "0 < u" by simp_all
  have "0 \<le> sgn x * of_int (round_half_even m) * u"
    using x mu round_half_even_nonneg[of m] by (simp add: sgn_if)
  then show ?thesis using False a b by (simp add: round_double_def)
qed

lemma float_mul_int_nonneg: "0 \<le> f \<Longrightarrow> 0 \<le> float_mul_int n f"
  unfolding float_mul_int_def
  by (intro round_double_nonneg mult_nonneg_nonneg) simp_all

text \<open>
  C8, as the specification states it, fails: \<^verbatim>\<open>val_num\<close> is not always the floor of the
  validation fraction times the row count. With \<^verbatim>\<open>val_size\<close> the double nearest to 0.3 (it
  lies a little below 0.3) and 10 rows, the product is below 3 and its floor is 2, but
  the product of doubles that line 108 computes rounds to 3.0, and \<^verbatim>\<open>val_num\<close> is 3.
\<close>

theorem pre_training_val_num_rounded_product:
  "val_num (fst (snd (pre_training_checklist_master
        (init_neuralnet\<lparr>val_size := Some (5404319552844595 / 18014398509481984)\<rparr>)
        (np_ones [10, 4]) (np_ones [10]) empty_world))) = Some 3
   \<and> \<lfloor>(5404319552844595 / 18014398509481984 :: real) * real (10 :: nat)\<rfloor> = 2"
proof
  have m: "float_mul_int 10 (5404319552844595 / 18014398509481984) = 3" by code_simp
  show "val_num (fst (snd (pre_training_checklist_master
        (init_neuralnet\<lparr>val_size := Some (5404319552844595 / 18014398509481984)\<rparr>)
        (np_ones [10, 4]) (np_ones [10]) empty_world))) = Some 3"
    by (simp add: pre_training_checklist_master_def shape_at_def np_ones_def init_neuralnet_def
        Let_def m py_int_def)
  show "\<lfloor>(5404319552844595 / 18014398509481984 :: real) * real (10 :: nat)\<rfloor> = 2"
    by simp
qed

text \<open>
  C8, amended. For a validation fraction in [0,1) (an unset \<^verbatim>\<open>val_size\<close> counts as 0) and an
  input array that has rows, the call completes with \<^verbatim>\<open>val_num\<close> the floor of the double
  product of the row count and the fraction (the product rounded to the nearest double),
  and \<^verbatim>\<open>num_train + val_num\<close> the row count.
\<close>

theorem pre_training_split_counts:
  assumes "v = (case val_size self of None \<Rightarrow> 0 | Some f \<Rightarrow> f)"
    and "0 \<le> v" and "v < 1"
    and "shape input_data = rows # ds"
  shows "\<exists>self' w' nt. pre_training_checklist_master self input_data labels w = (None, self', w')
           \<and> val_num self' = Some \<lfloor>float_mul_int rows v\<rfloor>
           \<and> num_train self' = Some nt \<and> nt + \<lfloor>float_mul_int rows v\<rfloor> = int rows"
  using assms float_mul_int_nonneg[of v rows]
  by (simp add: pre_training_checklist_master_def shape_at_0 Let_def py_int_def)

theorem pre_training_split_counts_witness:
  "\<exists>self' w' nt. pre_training_checklist_master (init_neuralnet\<lparr>val_size := Some (1 / 4)\<rparr>)
                    (np_ones [25, 4]) (np_ones [25]) empty_world = (None, self', w')
           \<and> val_num self' = Some 6 \<and> num_train self' = Some nt \<and> nt + 6 = 25"
proof -
  have m: "float_mul_int 25 (1 / 4) = 25 / 4" by code_simp
  have f: "\<lfloor>25 / 4 :: real\<rfloor> = 6" by simp
  from pre_training_split_counts
          [of "1 / 4" "init_neuralnet\<lparr>val_size := Some (1 / 4)\<rparr>" "np_ones [25, 4]" 25 "[4]"
              "np_ones [25]" empty_world]
  show ?thesis unfolding m f by (simp add: init_neuralnet_def np_ones_def)
qed

section \<open>Indexing lemmas\<close>

lemma valid_idx_length: "valid_idx sh idx \<Longrightarrow> length idx = length sh"
  by (induction sh idx rule: valid_idx.induct) auto

lemma ravel_less: "valid_idx sh idx \<Longrightarrow> ravel sh idx < prod_list sh"
proof (induction sh idx rule: valid_idx.induct)
  case (2 d ds i "is")
  then have i: "i < d" and r: "ravel ds is < prod_list ds" by auto
  have "i * prod_list ds + ravel ds is < i * prod_list ds + prod_list ds" using r by simp
  also have "\<dots> = Suc i * prod_list ds" by simp
  also have "\<dots> \<le> d * prod_list ds" using i by (intro mult_le_mono1) simp
  finally show ?case by simp
qed auto

lemma unravel_ravel: "valid_idx sh idx \<Longrightarrow> unravel sh (ravel sh idx) = idx"
proof (induction sh idx rule: valid_idx.induct)
  case (2 d ds i "is")
  then have r: "ravel ds is < prod_list ds" by (auto intro: ravel_less)
  with 2 show ?case by simp
qed auto

lemma valid_unravel: "k < prod_list sh \<Longrightarrow> valid_idx sh (unravel sh k)"
proof (induction sh arbitrary: k)
  case (Cons d ds)
  then have pos: "0 < prod_list ds" by (cases "prod_list ds = 0") auto
  have "k div prod_list ds < d" using Cons.prems pos
    by (simp add: less_mult_imp_div_less mult.commute)
  moreover have "k mod prod_list ds < prod_list ds" using pos by simp
  ultimately show ?case using Cons.IH by simp
qed simp

lemma shape_tabulate [simp]: "shape (tabulate sh f) = sh"
  by (simp add: tabulate_def)

lemma wf_tabulate [simp]: "wf_array (tabulate sh f)"
  by (simp add: tabulate_def wf_array_def)

lemma wf_np_ones [simp]: "wf_array (np_ones sh)"
  by (simp add: np_ones_def wf_array_def)

lemma shape_np_ones [simp]: "shape (np_ones sh) = sh"
  by (simp add: np_ones_def)

lemma get_tabulate: "valid_idx sh idx \<Longrightarrow> get (tabulate sh f) idx = f idx"
  using ravel_less[of sh idx] by (simp add: get_def tabulate_def unravel_ravel)

lemma get_np_ones: "valid_idx sh idx \<Longrightarrow> get (np_ones sh) idx = 1"
  using ravel_less[of sh idx] by (simp add: get_def np_ones_def)

lemma valid_idx_Nil2: "valid_idx sh [] = (sh = [])"
  by (cases sh) simp_all

lemma valid_idx_snoc: "valid_idx (sh @ [d]) (idx @ [i]) = (valid_idx sh idx \<and> i < d)"
proof (induction sh arbitrary: idx)
  case Nil
  show ?case
  proof (cases idx)
    case Nil then show ?thesis by simp
  next
    case (Cons j js) then show ?thesis by (cases js) simp_all
  qed
next
  case (Cons e es)
  then show ?case by (cases idx) (simp_all add: valid_idx_Nil2)
qed

section \<open>The mean over the sample axis\<close>

lemma ravel_snoc:
  "valid_idx sh idx \<Longrightarrow> ravel (sh @ [d]) (idx @ [i]) = ravel sh idx * d + i"
  by (induction sh idx rule: valid_idx.induct) (auto simp: algebra_simps)

lemma take_drop_nth:
  "(k + 1) * S \<le> length xs \<Longrightarrow> take S (drop (k * S) xs) = map (\<lambda>s. xs ! (k * S + s)) [0..<S]"
  by (auto simp: list_eq_iff_nth_eq)

lemma np_mean_last_elem:
  assumes ne: "shape J \<noteq> []" and wf: "wf_array J"
    and m: "np_mean_last J = Inr M"
    and v: "valid_idx (shape M) idx"
  shows "get M idx = spec_mean J idx"
proof -
  define S where "S = last (shape J)"
  define sh where "sh = butlast (shape J)"
  have shJ: "shape J = sh @ [S]" using ne by (simp add: S_def sh_def)
  have M: "M = \<lparr>shape = sh, data = map (\<lambda>k. sum_list (take S (drop (k * S) (data J))) / real S)
                           [0..<prod_list sh]\<rparr>"
    using m ne by (simp add: np_mean_last_def S_def sh_def)
  have v': "valid_idx sh idx" using v M by simp
  define k where "k = ravel sh idx"
  have k: "k < prod_list sh" using v' by (simp add: k_def ravel_less)
  have len: "length (data J) = prod_list sh * S" using wf shJ by (simp add: wf_array_def)
  have "(k + 1) * S \<le> prod_list sh * S" using k by (intro mult_le_mono1) simp
  then have le: "(k + 1) * S \<le> length (data J)" using len by simp
  have "get M idx = sum_list (take S (drop (k * S) (data J))) / real S"
    using k by (simp add: get_def M k_def)
  also have "take S (drop (k * S) (data J)) = map (\<lambda>s. data J ! (k * S + s)) [0..<S]"
    by (rule take_drop_nth[OF le])
  also have "map (\<lambda>s. data J ! (k * S + s)) [0..<S] = map (\<lambda>s. get J (idx @ [s])) [0..<S]"
    using v' by (simp add: get_def shJ ravel_snoc k_def)
  finally show ?thesis by (simp add: spec_mean_def S_def)
qed

lemma np_mean_last_shape: "np_mean_last J = Inr M \<Longrightarrow> shape M = butlast (shape J)"
  by (auto simp: np_mean_last_def split: if_splits)

lemma np_mean_last_total: "shape J \<noteq> [] \<Longrightarrow> \<exists>M. np_mean_last J = Inr M"
  by (simp add: np_mean_last_def)

section \<open>What the graph lookups leave unchanged\<close>

lemma same_but_calls_refl [simp]: "same_but_calls w w"
  by (simp add: same_but_calls_def)

lemma same_but_calls_trans: "same_but_calls w w1 \<Longrightarrow> same_but_calls w1 w2 \<Longrightarrow> same_but_calls w w2"
  by (simp add: same_but_calls_def)

lemma same_but_calls_upd [simp]: "same_but_calls w (w\<lparr>calls := cs\<rparr>)"
  by (simp add: same_but_calls_def)

lemma get_layer_frame: "get_layer m n w = (res, w') \<Longrightarrow> same_but_calls w w'"
  by (auto simp: get_layer_def split: option.splits)

lemma input_of_frame: "input_of m w = (res, w') \<Longrightarrow> same_but_calls w w'"
  unfolding input_of_def
  by (auto split: prod.splits sum.splits
      dest!: get_layer_frame intro: same_but_calls_trans)

lemma lookup_input_frame: "lookup_input self w = (res, w') \<Longrightarrow> same_but_calls w w'"
  unfolding lookup_input_def
  by (auto split: prod.splits sum.splits exn.splits
      dest!: input_of_frame intro: same_but_calls_trans)

lemma build_grad_list_frame:
  "build_grad_list ev self t js w = (res, w') \<Longrightarrow> same_but_calls w w'"
proof (induction js arbitrary: w res w')
  case Nil then show ?case by simp
next
  case (Cons j js)
  then show ?case
    by (auto split: prod.splits sum.splits dest!: get_layer_frame
        intro: same_but_calls_trans)
qed

lemma final_stack_of_frame:
  "final_stack_of ev self t w = (res, w') \<Longrightarrow> same_but_calls w w'"
  unfolding final_stack_of_def
  by (auto split: prod.splits sum.splits dest!: build_grad_list_frame)

lemma get_layer_indep: "fst (get_layer m n w) = fst (get_layer m n w0)"
  by (simp add: get_layer_def split: option.splits)

lemma input_of_indep: "fst (input_of m w) = fst (input_of m w0)"
proof (cases m)
  case None then show ?thesis by (simp add: input_of_def get_layer_def)
next
  case (Some km)
  then show ?thesis
    by (cases "map_of (layers km) ''input''") (simp_all add: input_of_def get_layer_def)
qed

lemma lookup_input_indep: "fst (lookup_input self w) = fst (lookup_input self w0)"
proof -
  obtain r1 w1 where a: "input_of (keras_model_predict self) w = (r1, w1)" by force
  obtain r2 w2 where b: "input_of (keras_model_predict self) w0 = (r2, w2)" by force
  have "r1 = r2" using input_of_indep[of "keras_model_predict self" w w0] a b by simp
  then show ?thesis
    using a b input_of_indep[of "keras_model self" w1 w2]
    by (auto simp: lookup_input_def split: sum.splits exn.splits)
qed

section \<open>Normalisation and the sample loop\<close>

lemma shape_np_inplace: "np_inplace f a st = Inr b \<Longrightarrow> shape b = shape a"
  by (auto simp: np_inplace_def split: pystat.splits if_splits)

lemma normalize_copy_Inr:
  assumes "normalize_copy self x w = (Inr (xd, xn), w1)"
  shows "\<exists>xv. heap w x = Some xv \<and> shape xn = shape xv \<and> xd = nxt w
           \<and> w1 = w\<lparr>heap := (heap w)(nxt w := Some xn), nxt := Suc (nxt w)\<rparr>"
  using assms
  by (auto simp: normalize_copy_def deref_def alloc_def store_def
      split: option.splits sum.splits dest!: shape_np_inplace)

lemma normalize_copy_keeps: "normalize_copy self x w = (res, w1) \<Longrightarrow> keeps_old w w1"
  by (auto simp: normalize_copy_def deref_def alloc_def store_def keeps_old_def
      split: option.splits sum.splits)

lemma normalize_copy_rest:
  "normalize_copy self x w = (res, w1) \<Longrightarrow>
     calls w1 = calls w \<and> stdout w1 = stdout w \<and> files w1 = files w \<and> dirs w1 = dirs w"
  by (auto simp: normalize_copy_def deref_def alloc_def store_def
      split: option.splits sum.splits)

lemma jacobian_loop_frame:
  "jacobian_loop ev setitem fs t xd r is w = (res, w') \<Longrightarrow>
     nxt w' = nxt w \<and> (\<forall>a. a \<noteq> r \<longrightarrow> heap w' a = heap w a) \<and> stdout w' = stdout w
     \<and> files w' = files w \<and> dirs w' = dirs w"
proof (induction "is" arbitrary: w)
  case Nil then show ?case by simp
next
  case (Cons i "is")
  show ?case
  proof (cases "slice_row xd i")
    case (Inl e) with Cons.prems show ?thesis by simp
  next
    case (Inr x_in)
    let ?w = "w\<lparr>calls := calls w @ [SessionRun (shape x_in)]\<rparr>"
    show ?thesis
    proof (cases "session_run ev fs t x_in")
      case (Inl e) with Cons.prems Inr show ?thesis by auto
    next
      case g: (Inr g)
      show ?thesis
      proof (cases "deref r ?w")
        case (Inl e) with Cons.prems Inr g show ?thesis by auto
      next
        case J: (Inr J)
        show ?thesis
        proof (cases "setitem J i g")
          case (Inl e) with Cons.prems Inr g J show ?thesis by auto
        next
          case J': (Inr J')
          have "jacobian_loop ev setitem fs t xd r is (store r J' ?w) = (res, w')"
            using Cons.prems Inr g J J' by simp
          from Cons.IH[OF this] show ?thesis by (simp add: store_def)
        qed
      qed
    qed
  qed
qed

lemma jacobian_loop_shape:
  assumes setter: "\<forall>J i g J'. setitem J i g = Inr J' \<longrightarrow> shape J' = shape J \<and> wf_array J'"
  shows "jacobian_loop ev setitem fs t xd r is w = (res, w') \<Longrightarrow> heap w r = Some J0 \<Longrightarrow>
     \<exists>J. heap w' r = Some J \<and> shape J = shape J0 \<and> (wf_array J0 \<longrightarrow> wf_array J)"
proof (induction "is" arbitrary: w J0)
  case Nil then show ?case by simp
next
  case (Cons i "is")
  show ?case
  proof (cases "slice_row xd i")
    case (Inl e) with Cons.prems show ?thesis by simp
  next
    case (Inr x_in)
    let ?w = "w\<lparr>calls := calls w @ [SessionRun (shape x_in)]\<rparr>"
    have d: "deref r ?w = Inr J0" using Cons.prems(2) by (simp add: deref_def)
    show ?thesis
    proof (cases "session_run ev fs t x_in")
      case (Inl e) with Cons.prems Inr show ?thesis by auto
    next
      case g: (Inr g)
      show ?thesis
      proof (cases "setitem J0 i g")
        case (Inl e) with Cons.prems Inr g d show ?thesis by auto
      next
        case J': (Inr J')
        have run: "jacobian_loop ev setitem fs t xd r is (store r J' ?w) = (res, w')"
          using Cons.prems Inr g d J' by simp
        have h: "heap (store r J' ?w) r = Some J'" by (simp add: store_def)
        from Cons.IH[OF run h] setter J' show ?thesis by auto
      qed
    qed
  qed
qed

lemma setitem_sample_shape:
  "np_setitem_sample J i g = Inr J' \<Longrightarrow> shape J' = shape J \<and> wf_array J'"
  by (auto simp: np_setitem_sample_def split: if_splits)

lemma setitem_chan0_shape:
  "np_setitem_chan0 J i g = Inr J' \<Longrightarrow> shape J' = shape J \<and> wf_array J'"
  by (auto simp: np_setitem_chan0_def split: if_splits)

section \<open>The output array of either branch\<close>

lemma dim_of_Inr: "dim_of s = Inr l \<Longrightarrow> s = PyInt (int l)"
  by (auto simp: dim_of_def split: pyshape.splits if_splits)

lemma keeps_old_refl [simp]: "keeps_old w w"
  by (simp add: keeps_old_def)

lemma keeps_old_trans: "keeps_old w w1 \<Longrightarrow> keeps_old w1 w2 \<Longrightarrow> keeps_old w w2"
  by (auto simp: keeps_old_def)

lemma same_but_calls_keeps: "same_but_calls w w' \<Longrightarrow> keeps_old w w'"
  by (simp add: same_but_calls_def keeps_old_def)

lemma alloc_loop_keeps:
  assumes "alloc a w = (r, w1)"
    and "jacobian_loop ev setitem fs t xd r is w1 = (res, w2)"
  shows "keeps_old w w2"
  using assms jacobian_loop_frame[OF assms(2)]
  by (auto simp: alloc_def keeps_old_def)

lemma alloc_loop_result:
  assumes setter: "\<forall>J i g J'. setitem J i g = Inr J' \<longrightarrow> shape J' = shape J \<and> wf_array J'"
    and a: "alloc (np_ones sh) w = (r, w1)"
    and l: "jacobian_loop ev setitem fs t xd r is w1 = (res, w2)"
  shows "r = nxt w \<and> nxt w2 = Suc (nxt w) \<and> (\<exists>J. heap w2 r = Some J \<and> shape J = sh \<and> wf_array J)"
proof -
  have h: "heap w1 r = Some (np_ones sh)" and r: "r = nxt w" and n: "nxt w1 = Suc (nxt w)"
    using a by (auto simp: alloc_def)
  from jacobian_loop_shape[OF setter l h] jacobian_loop_frame[OF l] r n
  show ?thesis by auto
qed

lemma jacobian_rank3_keeps: "jacobian_rank3 ev self t xn w = (res, w') \<Longrightarrow> keeps_old w w'"
  unfolding jacobian_rank3_def Let_def
  by (auto split: prod.splits sum.splits option.splits
      dest!: final_stack_of_frame same_but_calls_keeps
      dest: alloc_loop_keeps intro: keeps_old_trans)

lemma jacobian_rank4_keeps: "jacobian_rank4 ev self t xn w = (res, w') \<Longrightarrow> keeps_old w w'"
  unfolding jacobian_rank4_def Let_def
  by (auto split: prod.splits sum.splits option.splits if_splits
      simp: alloc_def keeps_old_def same_but_calls_def
      dest!: final_stack_of_frame jacobian_loop_frame)

lemma newaxis3_Inr:
  "newaxis3 a = Inr b \<Longrightarrow> length (shape a) < 4 \<Longrightarrow>
     length (shape a) = 3 \<and> shape b = shape a @ [1] \<and> data b = data a"
  by (auto simp: newaxis3_def ndim_def split: if_splits)

lemma jacobian_rank3_Inr:
  assumes "jacobian_rank3 ev self t xn w = (Inr r, w')"
  shows "\<exists>l J. labels_shape self = PyInt (int l) \<and> r = nxt w \<and> nxt w' = Suc (nxt w)
           \<and> heap w' r = Some J \<and> wf_array J
           \<and> shape J = [l, shape (np_atleast_3d xn) ! 1, shape (np_atleast_3d xn) ! 0]"
proof -
  from assms obtain fs w1 l r1 w2 where
    f: "final_stack_of ev self t w = (Inr fs, w1)"
    and d: "dim_of (labels_shape self) = Inr l"
    and a: "alloc (np_ones [l, shape (np_atleast_3d xn) ! 1, shape (np_atleast_3d xn) ! 0]) w1 = (r1, w2)"
    and lp: "jacobian_loop ev np_setitem_sample fs t (np_atleast_3d xn) r1
               [0..<shape (np_atleast_3d xn) ! 0] w2 = (None, w')"
    and r: "r = r1"
    unfolding jacobian_rank3_def Let_def
    by (auto split: prod.splits sum.splits option.splits)
  from final_stack_of_frame[OF f] have n: "nxt w1 = nxt w" by (simp add: same_but_calls_def)
  have setter: "\<forall>J i g J'. np_setitem_sample J i g = Inr J' \<longrightarrow> shape J' = shape J \<and> wf_array J'"
    using setitem_sample_shape by simp
  from alloc_loop_result[OF setter a lp] dim_of_Inr[OF d] n r
  show ?thesis by auto
qed

lemma jacobian_rank4_Inr:
  assumes "jacobian_rank4 ev self t xn w = (Inr r, w')"
  shows "\<exists>l J. labels_shape self = PyInt (int l) \<and> r = nxt w \<and> nxt w' = Suc (nxt w)
           \<and> heap w' r = Some J \<and> wf_array J \<and> 3 \<le> length (shape xn)
           \<and> shape J = [l, shape xn ! 1, shape xn ! 2,
                        if length (shape xn) = 3 then 1 else shape xn ! 3, shape xn ! 0]"
proof -
  define setitem where
    "setitem = (if length (shape xn) < 4 then np_setitem_chan0 else np_setitem_sample)"
  have setter: "\<forall>J i g J'. setitem J i g = Inr J' \<longrightarrow> shape J' = shape J \<and> wf_array J'"
    using setitem_sample_shape setitem_chan0_shape by (simp add: setitem_def)
  from assms obtain xd l r1 w1 fs w2 where
    x: "(if length (shape xn) < 4 then newaxis3 xn else Inr xn) = Inr xd"
    and d: "dim_of (labels_shape self) = Inr l"
    and a: "alloc (np_ones [l, shape xd ! 1, shape xd ! 2, shape xd ! 3, shape xd ! 0]) w = (r1, w1)"
    and f: "final_stack_of ev self t w1 = (Inr fs, w2)"
    and lp: "jacobian_loop ev setitem fs t xd r1 [0..<shape xd ! 0] w2 = (None, w')"
    and r: "r = r1"
    unfolding jacobian_rank4_def Let_def setitem_def
    by (auto split: prod.splits sum.splits option.splits)
  have sh: "3 \<le> length (shape xn) \<and> shape xd ! 0 = shape xn ! 0 \<and> shape xd ! 1 = shape xn ! 1
              \<and> shape xd ! 2 = shape xn ! 2
              \<and> shape xd ! 3 = (if length (shape xn) = 3 then 1 else shape xn ! 3)"
  proof (cases "length (shape xn) < 4")
    case True
    with x have "newaxis3 xn = Inr xd" by simp
    from newaxis3_Inr[OF this True] show ?thesis by (simp add: nth_append)
  next
    case False
    with x show ?thesis by auto
  qed
  have h1: "heap w1 r1 = Some (np_ones [l, shape xd ! 1, shape xd ! 2, shape xd ! 3, shape xd ! 0])"
    and r1: "r1 = nxt w" and n1: "nxt w1 = Suc (nxt w)"
    using a by (auto simp: alloc_def)
  from final_stack_of_frame[OF f] have s12: "heap w2 = heap w1" "nxt w2 = nxt w1"
    by (simp_all add: same_but_calls_def)
  from jacobian_loop_shape[OF setter lp, of "np_ones [l, shape xd ! 1, shape xd ! 2, shape xd ! 3, shape xd ! 0]"]
    h1 s12 jacobian_loop_frame[OF lp] dim_of_Inr[OF d] r r1 n1 sh
  show ?thesis by auto
qed

section \<open>The record of framework calls\<close>

lemma get_layer_calls:
  "get_layer m n w = (res, w') \<Longrightarrow> calls w' = calls w \<or> calls w' = calls w @ [GetLayer n]"
  by (auto simp: get_layer_def split: option.splits)

lemma input_of_calls:
  "input_of m w = (res, w') \<Longrightarrow> \<exists>k. calls w' = calls w @ replicate k (GetLayer ''input'')"
proof -
  assume a: "input_of m w = (res, w')"
  obtain r1 w1 where g1: "get_layer m ''input'' w = (r1, w1)" by force
  obtain r2 w2 where g2: "get_layer m ''input'' w1 = (r2, w2)" by force
  have c1: "\<exists>k. calls w1 = calls w @ replicate k (GetLayer ''input'')"
  proof -
    from get_layer_calls[OF g1] have
      "calls w1 = calls w @ replicate 0 (GetLayer ''input'')
       \<or> calls w1 = calls w @ replicate 1 (GetLayer ''input'')"
      by simp
    then show ?thesis by (rule disjE) (rule exI, assumption)+
  qed
  then obtain k1 where k1: "calls w1 = calls w @ replicate k1 (GetLayer ''input'')" ..
  have c2: "\<exists>k. calls w2 = calls w @ replicate k (GetLayer ''input'')"
  proof -
    from get_layer_calls[OF g2] k1 have
      "calls w2 = calls w @ replicate k1 (GetLayer ''input'')
       \<or> calls w2 = calls w @ replicate (Suc k1) (GetLayer ''input'')"
      by (simp add: replicate_append_same)
    then show ?thesis by (rule disjE) (rule exI, assumption)+
  qed
  from a g1 g2 have "w' = w1 \<or> w' = w2"
    by (auto simp: input_of_def split: sum.splits)
  with c1 c2 show ?thesis by auto
qed

lemma lookup_input_calls:
  "lookup_input self w = (res, w') \<Longrightarrow> \<exists>k. calls w' = calls w @ replicate k (GetLayer ''input'')"
proof -
  assume a: "lookup_input self w = (res, w')"
  obtain r1 w1 where i1: "input_of (keras_model_predict self) w = (r1, w1)" by force
  obtain r2 w2 where i2: "input_of (keras_model self) w1 = (r2, w2)" by force
  from input_of_calls[OF i1] obtain k1 where
    k1: "calls w1 = calls w @ replicate k1 (GetLayer ''input'')" by blast
  from input_of_calls[OF i2] obtain k2 where
    k2: "calls w2 = calls w1 @ replicate k2 (GetLayer ''input'')" by blast
  have c2: "calls w2 = calls w @ replicate (k1 + k2) (GetLayer ''input'')"
    using k1 k2 by (simp add: replicate_add)
  from a i1 i2 have "w' = w1 \<or> w' = w2"
    by (auto simp: lookup_input_def split: sum.splits exn.splits)
  with k1 c2 show ?thesis by blast
qed

lemma get_layer_no_run:
  "get_layer m n w = (res, w') \<Longrightarrow> SessionRun sh \<in> set (calls w') \<Longrightarrow> SessionRun sh \<in> set (calls w)"
  by (auto dest!: get_layer_calls)

lemma lookup_input_no_run:
  "lookup_input self w = (res, w') \<Longrightarrow> SessionRun sh \<in> set (calls w')
     \<Longrightarrow> SessionRun sh \<in> set (calls w)"
  by (auto dest!: lookup_input_calls)

lemma build_grad_list_no_run:
  "build_grad_list ev self t js w = (res, w') \<Longrightarrow> SessionRun sh \<in> set (calls w')
     \<Longrightarrow> SessionRun sh \<in> set (calls w)"
proof (induction js arbitrary: w res w')
  case Nil then show ?case by simp
next
  case (Cons j js)
  obtain r1 w1 where g: "get_layer (keras_model self) ''output'' w = (r1, w1)" by force
  show ?case
  proof (cases "SessionRun sh \<in> set (calls w1)")
    case True then show ?thesis using get_layer_no_run[OF g] by simp
  next
    case False
    with Cons.prems g Cons.IH show ?thesis
      by (auto split: sum.splits prod.splits)
  qed
qed

lemma final_stack_of_no_run:
  "final_stack_of ev self t w = (res, w') \<Longrightarrow> SessionRun sh \<in> set (calls w')
     \<Longrightarrow> SessionRun sh \<in> set (calls w)"
  unfolding final_stack_of_def
  by (auto split: prod.splits sum.splits dest: build_grad_list_no_run)

lemma jacobian_loop_runs:
  "jacobian_loop ev setitem fs t xd r is w = (res, w') \<Longrightarrow> SessionRun sh \<in> set (calls w') \<Longrightarrow>
     SessionRun sh \<in> set (calls w) \<or> (\<exists>i\<in>set is. \<exists>xi. slice_row xd i = Inr xi \<and> shape xi = sh)"
proof (induction "is" arbitrary: w)
  case Nil then show ?case by simp
next
  case (Cons i "is")
  show ?case
  proof (cases "slice_row xd i")
    case (Inl e) with Cons.prems show ?thesis by simp
  next
    case (Inr x_in)
    let ?w = "w\<lparr>calls := calls w @ [SessionRun (shape x_in)]\<rparr>"
    have here: "SessionRun sh \<in> set (calls ?w) \<Longrightarrow> ?thesis" using Inr by auto
    show ?thesis
    proof (cases "session_run ev fs t x_in")
      case (Inl e) with Cons.prems Inr here show ?thesis by auto
    next
      case g: (Inr g)
      show ?thesis
      proof (cases "deref r ?w")
        case (Inl e) with Cons.prems Inr g here show ?thesis by auto
      next
        case J: (Inr J)
        show ?thesis
        proof (cases "setitem J i g")
          case (Inl e) with Cons.prems Inr g J here show ?thesis by auto
        next
          case J': (Inr J')
          have run: "jacobian_loop ev setitem fs t xd r is (store r J' ?w) = (res, w')"
            using Cons.prems Inr g J J' by simp
          from Cons.IH[OF run Cons.prems(2)] have
            "SessionRun sh \<in> set (calls ?w)
             \<or> (\<exists>i\<in>set is. \<exists>xi. slice_row xd i = Inr xi \<and> shape xi = sh)"
            by (simp add: store_def)
          then show ?thesis using here by auto
        qed
      qed
    qed
  qed
qed

lemma slice_row_shape:
  "slice_row a i = Inr b \<Longrightarrow> shape a = n # ds \<Longrightarrow> i < n \<Longrightarrow> shape b = 1 # ds"
  by (auto simp: slice_row_def)

section \<open>The body of jacobian\<close>

lemma shape_atleast_3d:
  "shape (np_atleast_3d a) =
     (case shape a of [] \<Rightarrow> [1, 1, 1] | [n] \<Rightarrow> [1, n, 1] | [m, n] \<Rightarrow> [m, n, 1] | _ \<Rightarrow> shape a)"
  by (simp add: np_atleast_3d_def split: list.splits)

lemma atleast_3d_dims:
  "[shape (np_atleast_3d a) ! 1, shape (np_atleast_3d a) ! 0] =
     (case shape a of [] \<Rightarrow> [1, 1] | [n] \<Rightarrow> [n, 1] | m # n # _ \<Rightarrow> [n, m])"
  by (simp add: shape_atleast_3d split: list.splits)

lemma py_print_heap [simp]: "heap (py_print msg w) = heap w" "nxt (py_print msg w) = nxt w"
  "calls (py_print msg w) = calls w"
  by (simp_all add: py_print_def)

lemma jacobian_body_Inr:
  assumes ret: "jacobian_body ev self (Some xa) w = (Inr r, w')"
    and x: "heap w xa = Some xv"
    and decl: "fst (lookup_input self w) = Inr (input_tens, expect)"
  shows "\<exists>xn w2. shape xn = shape xv \<and> nxt w2 = Suc (nxt w) \<and>
           (\<forall>sh. SessionRun sh \<in> set (calls w2) \<longrightarrow> SessionRun sh \<in> set (calls w)) \<and>
           (length expect = 3 \<and> jacobian_rank3 ev self input_tens xn w2 = (Inr r, w')
            \<or> length expect = 4 \<and> jacobian_rank4 ev self input_tens xn w2 = (Inr r, w'))"
proof -
  from ret obtain xd xn w1 where nc: "normalize_copy self xa w = (Inr (xd, xn), w1)"
    by (auto simp: jacobian_body_def split: prod.splits sum.splits)
  from normalize_copy_Inr[OF nc] x have sh: "shape xn = shape xv" and n1: "nxt w1 = Suc (nxt w)"
    by auto
  from ret nc obtain t' e' w2 where li: "lookup_input self w1 = (Inr (t', e'), w2)"
    by (auto simp: jacobian_body_def split: prod.splits sum.splits)
  from lookup_input_indep[of self w1 w] li decl have te: "t' = input_tens" "e' = expect" by auto
  from lookup_input_frame[OF li] n1 have n2: "nxt w2 = Suc (nxt w)"
    by (simp add: same_but_calls_def)
  from ret nc li te have
    "length expect = 3 \<and> jacobian_rank3 ev self input_tens xn w2 = (Inr r, w')
     \<or> length expect = 4 \<and> jacobian_rank4 ev self input_tens xn w2 = (Inr r, w')"
    by (auto simp: jacobian_body_def split: if_splits)
  moreover have "\<forall>sh. SessionRun sh \<in> set (calls w2) \<longrightarrow> SessionRun sh \<in> set (calls w)"
    using lookup_input_no_run[OF li] normalize_copy_rest[OF nc] by auto
  ultimately show ?thesis using sh n2 by blast
qed

lemma jacobian_False_body:
  "jacobian ev self x False w = (Inr r, w') \<Longrightarrow>
     \<exists>w1. jacobian_body ev self x w = (Inr r, w1) \<and> w' = py_print ''Finished gradient calculation'' w1"
  by (auto simp: jacobian_def split: prod.splits sum.splits)

section \<open>Properties of jacobian\<close>

text \<open>
  C1, as the specification states it, fails: the sample count of the result is not always
  the number of rows of \<open>x\<close>. For a model that declares a rank-3 input, \<^verbatim>\<open>np.atleast_3d\<close>
  turns a rank-1 \<open>x\<close> of 3 elements into one sample of 3 features, and the result has
  shape (2, 3, 1), not (2, f, 3).
\<close>

theorem jacobian_rank1_input_shape:
  "result_shape (jacobian (demo_env [None, Some 3, Some 1]) (demo_net [None, Some 3, Some 1])
       (Some 0) False (world_with \<lparr>shape = [3], data = [1, 2, 3]\<rparr>)) = Some [2, 3, 1]"
  by code_simp

text \<open>
  C1, amended. For every call \<^verbatim>\<open>jacobian(x, mean_output=False)\<close> that returns, the model's
  declared input rank is 3 or 4. When it is 3, the returned array has shape
  (labels\_shape, features, samples) read off \<open>x\<close> promoted to three dimensions: for \<open>x\<close> of
  rank 2 or more these are the columns and the rows of \<open>x\<close>; for \<open>x\<close> of rank 1 the features
  are its length and there is one sample. When it is 4, \<open>x\<close> has rank 3 or more and the
  array has shape (labels\_shape, d1, d2, d3, rows of \<open>x\<close>), with d3 = 1 when \<open>x\<close> has rank 3
  and got its channel axis added.
\<close>

theorem jacobian_result_shape:
  assumes ret: "jacobian ev self (Some xa) False w = (Inr r, w')"
    and x: "heap w xa = Some xv"
    and decl: "fst (lookup_input self w) = Inr (input_tens, expect)"
  shows "\<exists>l J. labels_shape self = PyInt (int l) \<and> heap w' r = Some J
           \<and> (length expect = 3 \<or> length expect = 4)
           \<and> (length expect = 3 \<longrightarrow>
                shape J = (case shape xv of [] \<Rightarrow> [l, 1, 1] | [n] \<Rightarrow> [l, n, 1]
                           | m # n # _ \<Rightarrow> [l, n, m]))
           \<and> (length expect = 4 \<longrightarrow> 3 \<le> length (shape xv) \<and>
                shape J = [l, shape xv ! 1, shape xv ! 2,
                           if length (shape xv) = 3 then 1 else shape xv ! 3, shape xv ! 0])"
proof -
  from jacobian_False_body[OF ret] obtain w1 where
    b: "jacobian_body ev self (Some xa) w = (Inr r, w1)" and h: "heap w' = heap w1"
    by auto
  from jacobian_body_Inr[OF b x decl] obtain xn w2 where sh: "shape xn = shape xv"
    and br: "length expect = 3 \<and> jacobian_rank3 ev self input_tens xn w2 = (Inr r, w1)
            \<or> length expect = 4 \<and> jacobian_rank4 ev self input_tens xn w2 = (Inr r, w1)"
    by blast
  from br show ?thesis
  proof
    assume a: "length expect = 3 \<and> jacobian_rank3 ev self input_tens xn w2 = (Inr r, w1)"
    then obtain l J where "labels_shape self = PyInt (int l)" "heap w1 r = Some J"
      "shape J = [l, shape (np_atleast_3d xn) ! 1, shape (np_atleast_3d xn) ! 0]"
      using jacobian_rank3_Inr by blast
    moreover have "[shape (np_atleast_3d xn) ! 1, shape (np_atleast_3d xn) ! 0] =
       (case shape xv of [] \<Rightarrow> [1, 1] | [n] \<Rightarrow> [n, 1] | m # n # _ \<Rightarrow> [n, m])"
      using atleast_3d_dims[of xn] sh by simp
    ultimately show ?thesis using a h by (auto split: list.splits)
  next
    assume a: "length expect = 4 \<and> jacobian_rank4 ev self input_tens xn w2 = (Inr r, w1)"
    then obtain l J where "labels_shape self = PyInt (int l)" "heap w1 r = Some J"
      "3 \<le> length (shape xn)"
      "shape J = [l, shape xn ! 1, shape xn ! 2,
                        if length (shape xn) = 3 then 1 else shape xn ! 3, shape xn ! 0]"
      using jacobian_rank4_Inr by blast
    then show ?thesis using a h sh by auto
  qed
qed

theorem jacobian_result_shape_witness:
  "(\<exists>l J. labels_shape (demo_net [None, Some 3, Some 1]) = PyInt (int l)
      \<and> heap (snd (jacobian (demo_env [None, Some 3, Some 1]) (demo_net [None, Some 3, Some 1])
                     (Some 0) False (world_with \<lparr>shape = [2, 3], data = [1, 2, 3, 4, 5, 6]\<rparr>))) 2
          = Some J
      \<and> shape J = [l, 3, 2])
   \<and> (\<exists>l J. labels_shape (demo_net [None, Some 2, Some 2, Some 2]) = PyInt (int l)
      \<and> heap (snd (jacobian (demo_env [None, Some 2, Some 2, Some 2])
                     (demo_net [None, Some 2, Some 2, Some 2]) (Some 0) False
                     (world_with \<lparr>shape = [1, 2, 2, 2], data = [1, 2, 3, 4, 5, 6, 7, 8]\<rparr>))) 2
          = Some J
      \<and> shape J = [l, 2, 2, 2, 1])"
proof
  let ?x = "\<lparr>shape = [2, 3], data = [1, 2, 3, 4, 5, 6]\<rparr>"
  let ?e = "[None, Some 3, Some 1]"
  let ?j = "jacobian (demo_env ?e) (demo_net ?e) (Some 0) False (world_with ?x)"
  have f: "fst ?j = Inr 2" by code_simp
  then have j: "?j = (Inr 2, snd ?j)" by (metis prod.collapse)
  have x: "heap (world_with ?x) 0 = Some ?x" by (simp add: world_with_def empty_world_def)
  have decl: "fst (lookup_input (demo_net ?e) (world_with ?x)) = Inr (Tensor ''input'', ?e)"
    by code_simp
  from jacobian_result_shape[OF j x decl]
  show "\<exists>l J. labels_shape (demo_net ?e) = PyInt (int l) \<and> heap (snd ?j) 2 = Some J
          \<and> shape J = [l, 3, 2]"
    by auto
next
  let ?x = "\<lparr>shape = [1, 2, 2, 2], data = [1, 2, 3, 4, 5, 6, 7, 8]\<rparr>"
  let ?e = "[None, Some 2, Some 2, Some 2]"
  let ?j = "jacobian (demo_env ?e) (demo_net ?e) (Some 0) False (world_with ?x)"
  have f: "fst ?j = Inr 2" by code_simp
  then have j: "?j = (Inr 2, snd ?j)" by (metis prod.collapse)
  have x: "heap (world_with ?x) 0 = Some ?x" by (simp add: world_with_def empty_world_def)
  have decl: "fst (lookup_input (demo_net ?e) (world_with ?x)) = Inr (Tensor ''input'', ?e)"
    by code_simp
  from jacobian_result_shape[OF j x decl]
  show "\<exists>l J. labels_shape (demo_net ?e) = PyInt (int l) \<and> heap (snd ?j) 2 = Some J
          \<and> shape J = [l, 2, 2, 2, 1]"
    by auto
qed

lemma jacobian_body_keeps: "jacobian_body ev self x w = (res, w') \<Longrightarrow> keeps_old w w'"
proof (cases x)
  case None then show "jacobian_body ev self x w = (res, w') \<Longrightarrow> keeps_old w w'"
    by (simp add: jacobian_body_def)
next
  case (Some xa)
  assume b: "jacobian_body ev self x w = (res, w')"
  obtain r1 w1 where nc: "normalize_copy self xa w = (r1, w1)" by force
  have k1: "keeps_old w w1" by (rule normalize_copy_keeps[OF nc])
  show "keeps_old w w'"
  proof (cases r1)
    case (Inl e) with b Some nc k1 show ?thesis by (simp add: jacobian_body_def)
  next
    case (Inr p)
    obtain xd xn where p: "p = (xd, xn)" by force
    obtain r2 w2 where li: "lookup_input self w1 = (r2, w2)" by force
    have k2: "keeps_old w w2"
      using k1 same_but_calls_keeps[OF lookup_input_frame[OF li]] by (rule keeps_old_trans)
    show ?thesis
    proof (cases r2)
      case (Inl e) with b Some nc Inr p li k2 show ?thesis by (simp add: jacobian_body_def)
    next
      case r2: (Inr q)
      obtain t expect where q: "q = (t, expect)" by force
      from b Some nc Inr p li r2 q have
        "jacobian_rank3 ev self t xn w2 = (res, w') \<or> jacobian_rank4 ev self t xn w2 = (res, w')
         \<or> w' = w2"
        by (auto simp: jacobian_body_def split: if_splits)
      then show ?thesis
        using k2 jacobian_rank3_keeps jacobian_rank4_keeps keeps_old_trans by blast
    qed
  qed
qed

lemma keeps_old_alloc: "alloc a w = (r, w') \<Longrightarrow> keeps_old w w'"
  by (auto simp: alloc_def keeps_old_def)

lemma keeps_old_print [simp]: "keeps_old w (py_print msg w') = keeps_old w w'"
  by (simp add: keeps_old_def)

lemma jacobian_keeps: "jacobian ev self x mean_output w = (res, w') \<Longrightarrow> keeps_old w w'"
  unfolding jacobian_def
  by (auto split: prod.splits sum.splits if_splits
      dest!: jacobian_body_keeps keeps_old_alloc intro: keeps_old_trans)

text \<open>
  C10. \<^verbatim>\<open>jacobian\<close> never mutates the caller's input array: \<^verbatim>\<open>np.array(x)\<close> makes a new
  object, the in-place subtraction and division write to that object, and every later
  write goes to an array allocated during the call. For every call, whatever it returns
  or raises, an \<open>x\<close> that existed before the call holds the same array after it.
\<close>

theorem jacobian_input_unchanged:
  assumes "xa < nxt w"
  shows "heap (snd (jacobian ev self (Some xa) mean_output w)) xa = heap w xa"
proof -
  have "keeps_old w (snd (jacobian ev self (Some xa) mean_output w))"
    by (rule jacobian_keeps) (rule prod.collapse[symmetric])
  with assms show ?thesis by (simp add: keeps_old_def)
qed

theorem jacobian_input_unchanged_witness:
  "heap (snd (jacobian (demo_env [None, Some 3, Some 1]) (demo_net [None, Some 3, Some 1])
                 (Some 0) True (world_with \<lparr>shape = [2, 3], data = [1, 2, 3, 4, 5, 6]\<rparr>))) 0
     = Some \<lparr>shape = [2, 3], data = [1, 2, 3, 4, 5, 6]\<rparr>"
proof -
  let ?x = "\<lparr>shape = [2, 3], data = [1, 2, 3, 4, 5, 6]\<rparr>"
  have n: "0 < nxt (world_with ?x)" by (simp add: world_with_def empty_world_def)
  have h: "heap (world_with ?x) 0 = Some ?x" by (simp add: world_with_def empty_world_def)
  from jacobian_input_unchanged[OF n] h show ?thesis by simp
qed

text \<open>
  C3. Called without input, \<^verbatim>\<open>jacobian\<close> raises the value error and leaves the world as it
  was, whatever the object holds: nothing is allocated or normalised, no layer is looked
  up, nothing is run or printed.
\<close>

theorem jacobian_without_input:
  "jacobian ev self None mean_output w
     = (Inl (ValueError ''Please provide data to calculate the jacobian''), w)"
  by (simp add: jacobian_def jacobian_body_def)

lemma jacobian_body_array:
  assumes "jacobian_body ev self x w = (Inr r, w1)"
  shows "\<exists>J. heap w1 r = Some J \<and> wf_array J \<and> length (shape J) \<in> {3, 5}"
proof (cases x)
  case None with assms show ?thesis by (simp add: jacobian_body_def)
next
  case (Some xa)
  from assms Some obtain t xn w2 where
    "jacobian_rank3 ev self t xn w2 = (Inr r, w1) \<or> jacobian_rank4 ev self t xn w2 = (Inr r, w1)"
    by (auto simp: jacobian_body_def split: prod.splits sum.splits if_splits)
  then show ?thesis
  proof
    assume "jacobian_rank3 ev self t xn w2 = (Inr r, w1)"
    from jacobian_rank3_Inr[OF this] show ?thesis by auto
  next
    assume "jacobian_rank4 ev self t xn w2 = (Inr r, w1)"
    from jacobian_rank4_Inr[OF this] show ?thesis by auto
  qed
qed

text \<open>
  C2. Whenever \<^verbatim>\<open>jacobian(x, mean_output=False)\<close> returns an array \<open>J\<close>, the call with
  \<^verbatim>\<open>mean_output=True\<close> on the same input returns too, and its array \<open>M\<close> has the shape of \<open>J\<close>
  without the last (sample) axis and holds, at every index, the arithmetic mean of \<open>J\<close>
  over the sample axis. (With no samples numpy's mean is NaN, which the model leaves out.)
\<close>

theorem jacobian_mean_output:
  assumes "jacobian ev self x False w = (Inr r, w1)"
  shows "\<exists>J r' w2 M. heap w1 r = Some J
           \<and> jacobian ev self x True w = (Inr r', w2) \<and> heap w2 r' = Some M
           \<and> shape M = butlast (shape J)
           \<and> (0 < last (shape J) \<longrightarrow>
                (\<forall>idx. valid_idx (shape M) idx \<longrightarrow> get M idx = spec_mean J idx))"
proof -
  from jacobian_False_body[OF assms] obtain wb where
    b: "jacobian_body ev self x w = (Inr r, wb)" and h: "heap w1 = heap wb" by auto
  from jacobian_body_array[OF b] obtain J where
    J: "heap wb r = Some J" and wf: "wf_array J" and ne: "shape J \<noteq> []" by force
  from np_mean_last_total[OF ne] obtain M where M: "np_mean_last J = Inr M" by blast
  obtain r' w3 where a: "alloc M wb = (r', w3)" by force
  have t: "jacobian ev self x True w = (Inr r', py_print ''Finished gradient calculation'' w3)"
    using b J M a by (simp add: jacobian_def deref_def)
  have hM: "heap (py_print ''Finished gradient calculation'' w3) r' = Some M"
    using a by (auto simp: alloc_def)
  have el: "\<forall>idx. valid_idx (shape M) idx \<longrightarrow> get M idx = spec_mean J idx"
    using np_mean_last_elem[OF ne wf M] by simp
  show ?thesis
    using J h t hM np_mean_last_shape[OF M] el by auto
qed

theorem jacobian_mean_output_witness:
  "\<exists>J r' w2 M.
      heap (snd (jacobian (demo_env [None, Some 3, Some 1]) (demo_net [None, Some 3, Some 1])
                   (Some 0) False (world_with \<lparr>shape = [2, 3], data = [1, 2, 3, 4, 5, 6]\<rparr>))) 2
        = Some J
      \<and> jacobian (demo_env [None, Some 3, Some 1]) (demo_net [None, Some 3, Some 1])
           (Some 0) True (world_with \<lparr>shape = [2, 3], data = [1, 2, 3, 4, 5, 6]\<rparr>) = (Inr r', w2)
      \<and> heap w2 r' = Some M \<and> shape M = butlast (shape J) \<and> 0 < last (shape J)
      \<and> (\<forall>idx. valid_idx (shape M) idx \<longrightarrow> get M idx = spec_mean J idx)"
proof -
  let ?x = "\<lparr>shape = [2, 3], data = [1, 2, 3, 4, 5, 6]\<rparr>"
  let ?e = "[None, Some 3, Some 1]"
  let ?j = "jacobian (demo_env ?e) (demo_net ?e) (Some 0) False (world_with ?x)"
  have f: "fst ?j = Inr 2" by code_simp
  then have j: "?j = (Inr 2, snd ?j)" by (metis prod.collapse)
  have s: "result_shape ?j = Some [2, 3, 2]" by code_simp
  from jacobian_mean_output[OF j] obtain J r' w2 M where
    *: "heap (snd ?j) 2 = Some J"
       "jacobian (demo_env ?e) (demo_net ?e) (Some 0) True (world_with ?x) = (Inr r', w2)"
       "heap w2 r' = Some M" "shape M = butlast (shape J)"
       "0 < last (shape J) \<longrightarrow> (\<forall>idx. valid_idx (shape M) idx \<longrightarrow> get M idx = spec_mean J idx)"
    by (elim exE conjE)
  from s j * have "shape J = [2, 3, 2]" by (simp add: result_shape_def split: prod.splits)
  with * show ?thesis by auto
qed

text \<open>
  C4, as the specification states it, fails: an input of a rank other than 3 or 4 passed
  to \<^verbatim>\<open>jacobian\<close> does not bring about the documented error. The rank the code tests (lines
  225, 239) is the one the model declares for its input layer, not the rank of \<open>x\<close>. Data of
  rank 5 given to a model that declares rank 3 takes the rank-3 branch: the output array
  is allocated (line 233) and the session is run (line 237), which refuses the value
  fed; the error is the session's. Data of rank 2 given to the same model returns.
\<close>

theorem jacobian_rank5_data_on_rank3_model:
  "fst (jacobian (demo_env [None, Some 3, Some 1]) (demo_net [None, Some 3, Some 1]) (Some 0) False
          (world_with \<lparr>shape = [1, 3, 1, 1, 1], data = [1, 2, 3]\<rparr>))
     = Inl (ValueError ''Cannot feed value'')
   \<and> map_option shape
        (heap (snd (jacobian (demo_env [None, Some 3, Some 1]) (demo_net [None, Some 3, Some 1])
                      (Some 0) False (world_with \<lparr>shape = [1, 3, 1, 1, 1], data = [1, 2, 3]\<rparr>))) 2)
     = Some [2, 3, 1]
   \<and> calls (snd (jacobian (demo_env [None, Some 3, Some 1]) (demo_net [None, Some 3, Some 1])
                      (Some 0) False (world_with \<lparr>shape = [1, 3, 1, 1, 1], data = [1, 2, 3]\<rparr>)))
     = [GetLayer ''input'', GetLayer ''input'', GetLayer ''output'', GetLayer ''output'',
        SessionRun [1, 3, 1, 1, 1]]"
  by code_simp

lemma jacobian_rank2_data_returns:
  "fst (jacobian (demo_env [None, Some 3, Some 1]) (demo_net [None, Some 3, Some 1]) (Some 0) False
          (world_with \<lparr>shape = [2, 3], data = [1, 2, 3, 4, 5, 6]\<rparr>)) = Inr 2"
  by code_simp

text \<open>
  C4, amended. For every call that gets as far as the model's declared input rank (an
  input was given and normalised, the input layer was found) where that declared rank
  is neither 3 nor 4, \<^verbatim>\<open>jacobian\<close> raises the shape-mismatch value error, whatever
  \<^verbatim>\<open>mean_output\<close> and the rank of \<open>x\<close> are. No output array is written: the only object added
  to the heap is the normalised copy of \<open>x\<close>, every other object is as before, the calls
  made are lookups of the input layer (no session run), and nothing is printed or
  written to a file.
\<close>

theorem jacobian_unsupported_rank:
  assumes x: "heap w xa = Some xv"
    and n1: "np_inplace (-) xv (input_mean self) = Inr x1"
    and n2: "np_inplace (/) x1 (input_std self) = Inr x2"
    and decl: "fst (lookup_input self w) = Inr (input_tens, expect)"
    and r: "length expect \<noteq> 3" "length expect \<noteq> 4"
  shows "\<exists>w' k. jacobian ev self (Some xa) mean_output w
             = (Inl (ValueError ''Input data shape do not match neural network expectation''), w')
           \<and> heap w' = (heap w)(nxt w := Some x2) \<and> nxt w' = Suc (nxt w)
           \<and> calls w' = calls w @ replicate k (GetLayer ''input'')
           \<and> stdout w' = stdout w \<and> files w' = files w \<and> dirs w' = dirs w"
proof -
  define w1 where "w1 = w\<lparr>heap := (heap w)(nxt w := Some x2), nxt := Suc (nxt w)\<rparr>"
  have nc: "normalize_copy self xa w = (Inr (nxt w, x2), w1)"
    using x n1 n2 by (simp add: normalize_copy_def deref_def alloc_def store_def w1_def)
  obtain r2 w2 where li: "lookup_input self w1 = (r2, w2)" by force
  from lookup_input_indep[of self w1 w] li decl have r2: "r2 = Inr (input_tens, expect)" by simp
  from lookup_input_frame[OF li] have fr: "same_but_calls w1 w2" .
  from lookup_input_calls[OF li] obtain k where
    k: "calls w2 = calls w1 @ replicate k (GetLayer ''input'')" by blast
  have j: "jacobian ev self (Some xa) mean_output w
             = (Inl (ValueError ''Input data shape do not match neural network expectation''), w2)"
    using nc li r2 r by (simp add: jacobian_def jacobian_body_def)
  show ?thesis
    using j fr k by (auto simp: same_but_calls_def w1_def)
qed

theorem jacobian_unsupported_rank_witness:
  "\<exists>w' k. jacobian (demo_env [None, Some 2, Some 2, Some 1, Some 1])
              (demo_net [None, Some 2, Some 2, Some 1, Some 1]) (Some 0) False
              (world_with \<lparr>shape = [2, 2], data = [1, 2, 3, 4]\<rparr>)
             = (Inl (ValueError ''Input data shape do not match neural network expectation''), w')
           \<and> heap w' = (\<lambda>_. None)(0 := Some \<lparr>shape = [2, 2], data = [1, 2, 3, 4]\<rparr>,
                                    1 := Some \<lparr>shape = [2, 2], data = [0, 1 / 2, 1, 3 / 2]\<rparr>)
           \<and> nxt w' = 2
           \<and> calls w' = replicate k (GetLayer ''input'') \<and> stdout w' = []"
proof -
  let ?x = "\<lparr>shape = [2, 2], data = [1, 2, 3, 4]\<rparr>"
  let ?e = "[None, Some 2, Some 2, Some 1, Some 1]"
  have x: "heap (world_with ?x) 0 = Some ?x" by (simp add: world_with_def empty_world_def)
  have n1: "np_inplace (-) ?x (input_mean (demo_net ?e)) = Inr \<lparr>shape = [2, 2], data = [0, 1, 2, 3]\<rparr>"
    by (simp add: np_inplace_def demo_net_def init_neuralnet_def)
  have n2: "np_inplace (/) \<lparr>shape = [2, 2], data = [0, 1, 2, 3]\<rparr> (input_std (demo_net ?e))
              = Inr \<lparr>shape = [2, 2], data = [0, 1 / 2, 1, 3 / 2]\<rparr>"
    by (simp add: np_inplace_def demo_net_def init_neuralnet_def)
  have decl: "fst (lookup_input (demo_net ?e) (world_with ?x)) = Inr (Tensor ''input'', ?e)"
    by code_simp
  have r: "length ?e \<noteq> 3" "length ?e \<noteq> 4" by simp_all
  have w: "heap (world_with ?x) = (\<lambda>_. None)(0 := Some ?x)" "nxt (world_with ?x) = 1"
    "calls (world_with ?x) = []" "stdout (world_with ?x) = []"
    by (simp_all add: world_with_def empty_world_def)
  from jacobian_unsupported_rank[OF x n1 n2 decl r, of "demo_env ?e" False]
  obtain w' k where
    "jacobian (demo_env ?e) (demo_net ?e) (Some 0) False (world_with ?x)
       = (Inl (ValueError ''Input data shape do not match neural network expectation''), w')"
    "heap w' = (heap (world_with ?x))(nxt (world_with ?x)
                  := Some \<lparr>shape = [2, 2], data = [0, 1 / 2, 1, 3 / 2]\<rparr>)"
    "nxt w' = Suc (nxt (world_with ?x))"
    "calls w' = calls (world_with ?x) @ replicate k (GetLayer ''input'')"
    "stdout w' = stdout (world_with ?x)"
    by (elim exE conjE)
  then show ?thesis unfolding w by (intro exI[of _ w'] exI[of _ k]) simp
qed

section \<open>What the sample loop writes\<close>

lemma jacobian_loop_content:
  assumes setter: "\<forall>J i g J'. setitem J i g = Inr J' \<longrightarrow> shape J' = shape J \<and>
             (\<forall>idx. valid_idx (shape J) idx \<longrightarrow>
                get J' idx = (if last idx = i \<and> written idx then val g idx else get J idx))"
  shows "distinct is \<Longrightarrow> jacobian_loop ev setitem fs t xd r is w = (None, w') \<Longrightarrow>
     heap w r = Some J0 \<Longrightarrow>
     \<exists>J. heap w' r = Some J \<and> shape J = shape J0 \<and>
       (\<forall>idx. valid_idx (shape J0) idx \<longrightarrow>
          (if last idx \<in> set is \<and> written idx
           then \<exists>x_in g. slice_row xd (last idx) = Inr x_in \<and> session_run ev fs t x_in = Inr g
                  \<and> get J idx = val g idx
           else get J idx = get J0 idx))"
proof (induction "is" arbitrary: w J0)
  case Nil then show ?case by simp
next
  case (Cons i "is")
  from Cons.prems(2) obtain x_in where sl: "slice_row xd i = Inr x_in"
    by (cases "slice_row xd i") auto
  let ?w = "w\<lparr>calls := calls w @ [SessionRun (shape x_in)]\<rparr>"
  from Cons.prems(2) sl obtain g where g: "session_run ev fs t x_in = Inr g"
    by (cases "session_run ev fs t x_in") auto
  have d: "deref r ?w = Inr J0" using Cons.prems(3) by (simp add: deref_def)
  from Cons.prems(2) sl g d obtain J1 where J1: "setitem J0 i g = Inr J1"
    by (cases "setitem J0 i g") auto
  have run: "jacobian_loop ev setitem fs t xd r is (store r J1 ?w) = (None, w')"
    using Cons.prems(2) sl g d J1 by simp
  have h: "heap (store r J1 ?w) r = Some J1" by (simp add: store_def)
  from setter J1 have s1: "shape J1 = shape J0"
    and e1: "\<And>idx. valid_idx (shape J0) idx \<Longrightarrow>
                get J1 idx = (if last idx = i \<and> written idx then val g idx else get J0 idx)"
    by auto
  from Cons.prems(1) have dis: "distinct is" and ni: "i \<notin> set is" by auto
  from Cons.IH[OF dis run h] obtain J where
    J: "heap w' r = Some J" and sJ: "shape J = shape J1"
    and eJ: "\<And>idx. valid_idx (shape J1) idx \<Longrightarrow>
          (if last idx \<in> set is \<and> written idx
           then \<exists>x_in g. slice_row xd (last idx) = Inr x_in \<and> session_run ev fs t x_in = Inr g
                  \<and> get J idx = val g idx
           else get J idx = get J1 idx)"
    by blast
  have "\<forall>idx. valid_idx (shape J0) idx \<longrightarrow>
          (if last idx \<in> set (i # is) \<and> written idx
           then \<exists>x_in g. slice_row xd (last idx) = Inr x_in \<and> session_run ev fs t x_in = Inr g
                  \<and> get J idx = val g idx
           else get J idx = get J0 idx)"
  proof (intro allI impI)
    fix idx assume v: "valid_idx (shape J0) idx"
    then have v1: "valid_idx (shape J1) idx" using s1 by simp
    show "if last idx \<in> set (i # is) \<and> written idx
           then \<exists>x_in g. slice_row xd (last idx) = Inr x_in \<and> session_run ev fs t x_in = Inr g
                  \<and> get J idx = val g idx
           else get J idx = get J0 idx"
    proof (cases "last idx \<in> set is \<and> written idx")
      case True
      with eJ[OF v1] show ?thesis by auto
    next
      case False
      with eJ[OF v1] have a: "get J idx = get J1 idx" by auto
      show ?thesis
      proof (cases "last idx = i \<and> written idx")
        case True
        with e1[OF v] a sl g show ?thesis by auto
      next
        case F2: False
        with e1[OF v] a False show ?thesis by auto
      qed
    qed
  qed
  with J sJ s1 show ?case by auto
qed

lemma valid_idx_length5: "valid_idx sh idx \<Longrightarrow> length sh = 5 \<Longrightarrow> last idx = idx ! 4"
proof -
  assume v: "valid_idx sh idx" and l: "length sh = 5"
  from valid_idx_length[OF v] l have n: "length idx = 5" by simp
  then have "idx \<noteq> []" by auto
  then show ?thesis using n by (simp add: last_conv_nth)
qed

lemma setitem_chan0_content:
  "\<forall>J i g J'. np_setitem_chan0 J i g = Inr J' \<longrightarrow> shape J' = shape J \<and>
     (\<forall>idx. valid_idx (shape J) idx \<longrightarrow>
        get J' idx = (if last idx = i \<and> idx ! 3 = 0 then aget g (take 3 idx) else get J idx))"
  by (auto simp: np_setitem_chan0_def get_tabulate valid_idx_length5 split: if_splits)

lemma setitem_sample_content:
  "\<forall>J i g J'. np_setitem_sample J i g = Inr J' \<longrightarrow> shape J' = shape J \<and>
     (\<forall>idx. valid_idx (shape J) idx \<longrightarrow>
        get J' idx = (if last idx = i \<and> True then aget g (butlast idx) else get J idx))"
  by (auto simp: np_setitem_sample_def get_tabulate split: if_splits)

lemma valid_idx5:
  "valid_idx [a, b, c, d, e] idx \<Longrightarrow>
     \<exists>i0 i1 i2 i3 i4. idx = [i0, i1, i2, i3, i4] \<and> i0 < a \<and> i1 < b \<and> i2 < c \<and> i3 < d \<and> i4 < e"
  by (auto elim!: valid_idx.elims)

lemma jacobian_rank4_mono_runs:
  assumes ret: "jacobian_rank4 ev self t xn w = (Inr r, w')"
    and lt: "length (shape xn) < 4"
    and run: "SessionRun sh \<in> set (calls w')"
  shows "SessionRun sh \<in> set (calls w) \<or> sh = 1 # tl (shape xn) @ [1]"
proof -
  from ret lt obtain xd l r1 w1 fs w2 where
    x: "newaxis3 xn = Inr xd"
    and a: "alloc (np_ones [l, shape xd ! 1, shape xd ! 2, shape xd ! 3, shape xd ! 0]) w = (r1, w1)"
    and f: "final_stack_of ev self t w1 = (Inr fs, w2)"
    and lp: "jacobian_loop ev np_setitem_chan0 fs t xd r1 [0..<shape xd ! 0] w2 = (None, w')"
    unfolding jacobian_rank4_def Let_def
    by (auto split: prod.splits sum.splits option.splits)
  from newaxis3_Inr[OF x lt] have sx: "length (shape xn) = 3" "shape xd = shape xn @ [1]" by auto
  then obtain s0 ds where s0: "shape xn = s0 # ds" by (cases "shape xn") auto
  have xd: "shape xd = s0 # (ds @ [1])" "shape xd ! 0 = s0" using sx s0 by simp_all
  have c1: "calls w1 = calls w" using a by (auto simp: alloc_def)
  from jacobian_loop_runs[OF lp run] show ?thesis
  proof
    assume "SessionRun sh \<in> set (calls w2)"
    from final_stack_of_no_run[OF f this] c1 show ?thesis by simp
  next
    assume "\<exists>i\<in>set [0..<shape xd ! 0]. \<exists>xi. slice_row xd i = Inr xi \<and> shape xi = sh"
    then obtain i xi where i: "i < s0" and sl: "slice_row xd i = Inr xi" and sh: "shape xi = sh"
      using xd by auto
    from slice_row_shape[OF sl xd(1) i] sh s0 show ?thesis by simp
  qed
qed

lemma build_grad_list_indep:
  "fst (build_grad_list ev self t js w) = fst (build_grad_list ev self t js w0)"
proof (induction js arbitrary: w w0)
  case Nil show ?case by simp
next
  case (Cons j js)
  obtain r1 w1 where a: "get_layer (keras_model self) ''output'' w = (r1, w1)" by force
  obtain r2 w2 where b: "get_layer (keras_model self) ''output'' w0 = (r2, w2)" by force
  have r: "r1 = r2" using get_layer_indep[of "keras_model self" "''output''" w w0] a b by simp
  show ?case
    using a b r Cons.IH[of w1 w2]
    by (auto split: sum.splits prod.splits)
qed

lemma final_stack_of_indep:
  "fst (final_stack_of ev self t w) = fst (final_stack_of ev self t w0)"
proof (cases "py_range (labels_shape self)")
  case (Inl e) then show ?thesis by (simp add: final_stack_of_def)
next
  case (Inr js)
  obtain r1 w1 where a: "build_grad_list ev self t js w = (r1, w1)" by force
  obtain r2 w2 where b: "build_grad_list ev self t js w0 = (r2, w2)" by force
  have "r1 = r2" using build_grad_list_indep[of ev self t js w w0] a b by simp
  then show ?thesis using Inr a b by (auto simp: final_stack_of_def split: sum.splits)
qed

lemma normalize_copy_value:
  assumes "normalize_copy self x w = (Inr (xd, xn), w1)"
  shows "\<exists>xv x1. heap w x = Some xv \<and> np_inplace (-) xv (input_mean self) = Inr x1
           \<and> np_inplace (/) x1 (input_std self) = Inr xn"
  using assms
  by (auto simp: normalize_copy_def deref_def alloc_def store_def
      split: option.splits sum.splits)

lemma jacobian_body_normalised:
  assumes ret: "jacobian_body ev self (Some xa) w = (Inr r, w')"
    and x: "heap w xa = Some xv"
    and decl: "fst (lookup_input self w) = Inr (input_tens, expect)"
  shows "\<exists>x1 xn w2. np_inplace (-) xv (input_mean self) = Inr x1
           \<and> np_inplace (/) x1 (input_std self) = Inr xn \<and> shape xn = shape xv \<and>
           (\<forall>sh. SessionRun sh \<in> set (calls w2) \<longrightarrow> SessionRun sh \<in> set (calls w)) \<and>
           (length expect = 3 \<and> jacobian_rank3 ev self input_tens xn w2 = (Inr r, w')
            \<or> length expect = 4 \<and> jacobian_rank4 ev self input_tens xn w2 = (Inr r, w'))"
proof -
  from ret obtain xd xn w1 where nc: "normalize_copy self xa w = (Inr (xd, xn), w1)"
    by (auto simp: jacobian_body_def split: prod.splits sum.splits)
  from normalize_copy_value[OF nc] x obtain x1 where
    n1: "np_inplace (-) xv (input_mean self) = Inr x1"
    and n2: "np_inplace (/) x1 (input_std self) = Inr xn"
    by auto
  from ret nc obtain t' e' w2 where li: "lookup_input self w1 = (Inr (t', e'), w2)"
    by (auto simp: jacobian_body_def split: prod.splits sum.splits)
  from lookup_input_indep[of self w1 w] li decl have te: "t' = input_tens" "e' = expect" by auto
  from ret nc li te have
    "length expect = 3 \<and> jacobian_rank3 ev self input_tens xn w2 = (Inr r, w')
     \<or> length expect = 4 \<and> jacobian_rank4 ev self input_tens xn w2 = (Inr r, w')"
    by (auto simp: jacobian_body_def split: if_splits)
  moreover have "\<forall>sh. SessionRun sh \<in> set (calls w2) \<longrightarrow> SessionRun sh \<in> set (calls w)"
    using lookup_input_no_run[OF li] normalize_copy_rest[OF nc] by auto
  moreover have "shape xn = shape xv"
    using shape_np_inplace[OF n1] shape_np_inplace[OF n2] by simp
  ultimately show ?thesis using n1 n2 by blast
qed

lemma slice_row_explicit:
  "shape a = [s0, s1, s2, 1] \<Longrightarrow> i < s0 \<Longrightarrow>
     slice_row a i = Inr \<lparr>shape = [1, s1, s2, 1],
                          data = take (s1 * s2) (drop (i * (s1 * s2)) (data a))\<rparr>"
  by (simp add: slice_row_def)

lemma jacobian_rank4_mono_content:
  assumes ret: "jacobian_rank4 ev self t xn w = (Inr r, w')"
    and sh: "shape xn = [s0, s1, s2]"
  shows "\<exists>J fs. heap w' r = Some J \<and> fst (final_stack_of ev self t w) = Inr fs \<and>
           (\<forall>idx. valid_idx (shape J) idx \<longrightarrow>
              (\<exists>g. session_run ev fs t
                       \<lparr>shape = [1, s1, s2, 1],
                          data = take (s1 * s2) (drop (idx ! 4 * (s1 * s2)) (data xn))\<rparr> = Inr g
                    \<and> get J idx = aget g (take 3 idx)))"
proof -
  have lt: "length (shape xn) < 4" using sh by simp
  from ret lt obtain xd l r1 w1 fs w2 where
    x: "newaxis3 xn = Inr xd"
    and a: "alloc (np_ones [l, shape xd ! 1, shape xd ! 2, shape xd ! 3, shape xd ! 0]) w = (r1, w1)"
    and f: "final_stack_of ev self t w1 = (Inr fs, w2)"
    and lp: "jacobian_loop ev np_setitem_chan0 fs t xd r1 [0..<shape xd ! 0] w2 = (None, w')"
    and r: "r = r1"
    unfolding jacobian_rank4_def Let_def
    by (auto split: prod.splits sum.splits option.splits)
  from newaxis3_Inr[OF x lt] sh have xd: "shape xd = [s0, s1, s2, 1]" "data xd = data xn"
    by auto
  have fs: "fst (final_stack_of ev self t w) = Inr fs"
    using final_stack_of_indep[of ev self t w w1] f by simp
  let ?J0 = "np_ones [l, shape xd ! 1, shape xd ! 2, shape xd ! 3, shape xd ! 0]"
  have h1: "heap w1 r1 = Some ?J0" using a by (auto simp: alloc_def)
  from final_stack_of_frame[OF f] have "heap w2 = heap w1" by (simp add: same_but_calls_def)
  with h1 have h2: "heap w2 r1 = Some ?J0" by simp
  have dis: "distinct [0..<shape xd ! 0]" by simp
  from jacobian_loop_content[OF setitem_chan0_content dis lp h2] obtain J where
    J: "heap w' r1 = Some J" and sJ: "shape J = shape ?J0"
    and c: "\<And>idx. valid_idx (shape ?J0) idx \<Longrightarrow>
          (if last idx \<in> set [0..<shape xd ! 0] \<and> idx ! 3 = 0
           then \<exists>x_in g. slice_row xd (last idx) = Inr x_in \<and> session_run ev fs t x_in = Inr g
                  \<and> get J idx = aget g (take 3 idx)
           else get J idx = get ?J0 idx)"
    by blast
  have "\<forall>idx. valid_idx (shape J) idx \<longrightarrow>
              (\<exists>g. session_run ev fs t
                       \<lparr>shape = [1, s1, s2, 1],
                          data = take (s1 * s2) (drop (idx ! 4 * (s1 * s2)) (data xn))\<rparr> = Inr g
                    \<and> get J idx = aget g (take 3 idx))"
  proof (intro allI impI)
    fix idx assume "valid_idx (shape J) idx"
    then have v: "valid_idx (shape ?J0) idx" using sJ by simp
    then have v5: "valid_idx [l, s1, s2, 1, s0] idx" using xd by simp
    from valid_idx5[OF v5] obtain i0 i1 i2 i3 i4 where
      i: "idx = [i0, i1, i2, i3, i4]" "i3 < 1" "i4 < s0" by auto
    then have "last idx \<in> set [0..<shape xd ! 0] \<and> idx ! 3 = 0" using xd by simp
    with c[OF v] obtain x_in g where
      sl: "slice_row xd (last idx) = Inr x_in" and g: "session_run ev fs t x_in = Inr g"
      and e: "get J idx = aget g (take 3 idx)"
      by auto
    have li: "last idx = idx ! 4" "idx ! 4 < s0" using i by simp_all
    from slice_row_explicit[OF xd(1) li(2)] sl li(1) xd(2) have
      "x_in = \<lparr>shape = [1, s1, s2, 1],
                data = take (s1 * s2) (drop (idx ! 4 * (s1 * s2)) (data xn))\<rparr>"
      by simp
    with g e show "\<exists>g. session_run ev fs t
                       \<lparr>shape = [1, s1, s2, 1],
                          data = take (s1 * s2) (drop (idx ! 4 * (s1 * s2)) (data xn))\<rparr> = Inr g
                    \<and> get J idx = aget g (take 3 idx)"
      by blast
  qed
  with J r fs show ?thesis by blast
qed

lemma setitem_chan0_elsewhere:
  assumes "np_setitem_chan0 J i g = Inr J'" and "valid_idx (shape J) idx"
    and "idx ! 3 \<noteq> 0 \<or> idx ! 4 \<noteq> i"
  shows "get J' idx = get J idx"
  using assms by (auto simp: np_setitem_chan0_def get_tabulate split: if_splits)

text \<open>
  C5, as the specification states it, fails: for a model that declares a rank-4 input,
  data of rank 2 gets no channel axis. \<^verbatim>\<open>x_data[:, :, :, np.newaxis]\<close> needs three axes to
  slice, numpy raises its index error, and nothing is evaluated.
\<close>

theorem jacobian_rank2_into_rank4_model:
  "fst (jacobian (demo_env [None, Some 2, Some 2, Some 1]) (demo_net [None, Some 2, Some 2, Some 1])
          (Some 0) False (world_with \<lparr>shape = [2, 2], data = [1, 2, 3, 4]\<rparr>))
     = Inl (IndexError ''too many indices for array'')"
  by code_simp

text \<open>
  C5, amended. For every call \<^verbatim>\<open>jacobian(x, mean_output=False)\<close> that returns, where the model
  declares a rank-4 input and the data has rank below 4: the data has rank exactly 3, a
  trailing channel axis of size 1 is added before evaluation (every sample is fed to
  the session with shape (1, d1, d2, 1)), and the result has shape
  (labels\_shape, d1, d2, 1, samples), so slot 0 is the only slot of its channel axis.
  Every entry of the result, at output unit \<open>j\<close>, position \<open>(a, b)\<close> and sample \<open>i\<close>, is the
  entry at \<open>(j, a, b)\<close> of the array the session returned when the stacked gradients were
  run on row \<open>i\<close> of the normalised data. (The assignment used on this path,
  \<open>np_setitem_chan0\<close>, changes no entry whose channel index is not 0: lemma
  \<open>setitem_chan0_elsewhere\<close>.)
\<close>

theorem jacobian_mono_channel:
  assumes ret: "jacobian ev self (Some xa) False w = (Inr r, w')"
    and x: "heap w xa = Some xv"
    and decl: "fst (lookup_input self w) = Inr (input_tens, expect)"
    and e4: "length expect = 4"
    and lt: "length (shape xv) < 4"
  shows "\<exists>s0 s1 s2 l J x1 x2 final_stack.
           shape xv = [s0, s1, s2] \<and> labels_shape self = PyInt (int l)
           \<and> np_inplace (-) xv (input_mean self) = Inr x1
           \<and> np_inplace (/) x1 (input_std self) = Inr x2
           \<and> fst (final_stack_of ev self input_tens w) = Inr final_stack
           \<and> heap w' r = Some J \<and> shape J = [l, s1, s2, 1, s0]
           \<and> (\<forall>sh. SessionRun sh \<in> set (calls w') \<longrightarrow>
                  SessionRun sh \<in> set (calls w) \<or> sh = [1, s1, s2, 1])
           \<and> (\<forall>idx. valid_idx (shape J) idx \<longrightarrow>
                  idx ! 3 = 0
                  \<and> (\<exists>g. session_run ev final_stack input_tens
                             \<lparr>shape = [1, s1, s2, 1],
                                data = take (s1 * s2) (drop (idx ! 4 * (s1 * s2)) (data x2))\<rparr>
                           = Inr g
                         \<and> get J idx = aget g (take 3 idx)))"
proof -
  from jacobian_False_body[OF ret] obtain wb where
    b: "jacobian_body ev self (Some xa) w = (Inr r, wb)"
    and h: "heap w' = heap wb" and c: "calls w' = calls wb"
    by auto
  from jacobian_body_normalised[OF b x decl] e4 obtain x1 xn w2 where
    n1: "np_inplace (-) xv (input_mean self) = Inr x1"
    and n2: "np_inplace (/) x1 (input_std self) = Inr xn"
    and sh: "shape xn = shape xv"
    and c2: "\<forall>sh. SessionRun sh \<in> set (calls w2) \<longrightarrow> SessionRun sh \<in> set (calls w)"
    and r4: "jacobian_rank4 ev self input_tens xn w2 = (Inr r, wb)"
    by auto
  from jacobian_rank4_Inr[OF r4] obtain l J where
    l: "labels_shape self = PyInt (int l)" and J: "heap wb r = Some J"
    and three: "3 \<le> length (shape xn)"
    and sJ: "shape J = [l, shape xn ! 1, shape xn ! 2,
                        if length (shape xn) = 3 then 1 else shape xn ! 3, shape xn ! 0]"
    by blast
  from three lt sh have len: "length (shape xv) = 3" by simp
  then obtain s0 s1 s2 where sv: "shape xv = [s0, s1, s2]"
    by (cases "shape xv" rule: spec_input_shape.cases) auto
  have sn: "shape xn = [s0, s1, s2]" using sh sv by simp
  have sJ': "shape J = [l, s1, s2, 1, s0]" using sJ sn by simp
  have hJ: "heap w' r = Some J" using J h by simp
  have runs: "\<forall>q. SessionRun q \<in> set (calls w') \<longrightarrow>
                  SessionRun q \<in> set (calls w) \<or> q = [1, s1, s2, 1]"
  proof (intro allI impI)
    fix q assume "SessionRun q \<in> set (calls w')"
    then have "SessionRun q \<in> set (calls wb)" using c by simp
    from jacobian_rank4_mono_runs[OF r4 _ this] sn c2
    show "SessionRun q \<in> set (calls w) \<or> q = [1, s1, s2, 1]" by auto
  qed
  have slot: "\<forall>idx. valid_idx (shape J) idx \<longrightarrow> idx ! 3 = 0"
    using sJ' by (auto dest!: valid_idx5)
  from jacobian_rank4_mono_content[OF r4 sn] J obtain fs where
    fs2: "fst (final_stack_of ev self input_tens w2) = Inr fs"
    and cont: "\<forall>idx. valid_idx (shape J) idx \<longrightarrow>
              (\<exists>g. session_run ev fs input_tens
                       \<lparr>shape = [1, s1, s2, 1],
                          data = take (s1 * s2) (drop (idx ! 4 * (s1 * s2)) (data xn))\<rparr> = Inr g
                    \<and> get J idx = aget g (take 3 idx))"
    by auto
  have fs: "fst (final_stack_of ev self input_tens w) = Inr fs"
    using final_stack_of_indep[of ev self input_tens w w2] fs2 by simp
  have content: "\<forall>idx. valid_idx (shape J) idx \<longrightarrow>
                  idx ! 3 = 0
                  \<and> (\<exists>g. session_run ev fs input_tens
                             \<lparr>shape = [1, s1, s2, 1],
                                data = take (s1 * s2) (drop (idx ! 4 * (s1 * s2)) (data xn))\<rparr>
                           = Inr g
                         \<and> get J idx = aget g (take 3 idx))"
    using slot cont by blast
  show ?thesis
    by (intro exI[of _ s0] exI[of _ s1] exI[of _ s2] exI[of _ l] exI[of _ J] exI[of _ x1]
          exI[of _ xn] exI[of _ fs] conjI)
       (rule sv l n1 n2 fs hJ sJ' runs content)+
qed

theorem jacobian_mono_channel_witness:
  "\<exists>J. heap (snd (jacobian (demo_env [None, Some 2, Some 2, Some 1])
                       (demo_net [None, Some 2, Some 2, Some 1]) (Some 0) False
                       (world_with \<lparr>shape = [2, 2, 2], data = [1, 2, 3, 4, 5, 6, 7, 8]\<rparr>))) 2
          = Some J
      \<and> shape J = [2, 2, 2, 1, 2]
      \<and> (\<forall>sh. SessionRun sh \<in> set (calls (snd (jacobian (demo_env [None, Some 2, Some 2, Some 1])
                       (demo_net [None, Some 2, Some 2, Some 1]) (Some 0) False
                       (world_with \<lparr>shape = [2, 2, 2], data = [1, 2, 3, 4, 5, 6, 7, 8]\<rparr>))))
             \<longrightarrow> sh = [1, 2, 2, 1])
      \<and> (\<forall>idx. valid_idx (shape J) idx \<longrightarrow>
             idx ! 3 = 0
             \<and> (\<exists>g. demo_session_run [None, Some 2, Some 2, Some 1]
                        (Stacked [Gradient (Strided (Tensor ''output'') 0 0) (Tensor ''input''),
                                  Gradient (Strided (Tensor ''output'') 0 1) (Tensor ''input'')])
                        (Tensor ''input'')
                        \<lparr>shape = [1, 2, 2, 1],
                           data = take 4 (drop (idx ! 4 * 4) [0, 1 / 2, 1, 3 / 2, 2, 5 / 2, 3, 7 / 2])\<rparr>
                      = Inr g
                    \<and> get J idx = aget g (take 3 idx)))"
proof -
  let ?x = "\<lparr>shape = [2, 2, 2], data = [1, 2, 3, 4, 5, 6, 7, 8]\<rparr>"
  let ?e = "[None, Some 2, Some 2, Some 1]"
  let ?j = "jacobian (demo_env ?e) (demo_net ?e) (Some 0) False (world_with ?x)"
  have f: "fst ?j = Inr 2" by code_simp
  then have j: "?j = (Inr 2, snd ?j)" by (metis prod.collapse)
  have x: "heap (world_with ?x) 0 = Some ?x" by (simp add: world_with_def empty_world_def)
  have c: "calls (world_with ?x) = []" by (simp add: world_with_def empty_world_def)
  have decl: "fst (lookup_input (demo_net ?e) (world_with ?x)) = Inr (Tensor ''input'', ?e)"
    by code_simp
  have e4: "length ?e = 4" by simp
  have lt: "length (shape ?x) < 4" by simp
  have l: "labels_shape (demo_net ?e) = PyInt 2" by (simp add: demo_net_def init_neuralnet_def)
  have n1: "np_inplace (-) ?x (input_mean (demo_net ?e))
              = Inr \<lparr>shape = [2, 2, 2], data = [0, 1, 2, 3, 4, 5, 6, 7]\<rparr>"
    by (simp add: np_inplace_def demo_net_def init_neuralnet_def)
  have n2: "np_inplace (/) \<lparr>shape = [2, 2, 2], data = [0, 1, 2, 3, 4, 5, 6, 7]\<rparr>
                (input_std (demo_net ?e))
              = Inr \<lparr>shape = [2, 2, 2], data = [0, 1 / 2, 1, 3 / 2, 2, 5 / 2, 3, 7 / 2]\<rparr>"
    by (simp add: np_inplace_def demo_net_def init_neuralnet_def)
  have fs: "fst (final_stack_of (demo_env ?e) (demo_net ?e) (Tensor ''input'') (world_with ?x))
              = Inr (Stacked [Gradient (Strided (Tensor ''output'') 0 0) (Tensor ''input''),
                              Gradient (Strided (Tensor ''output'') 0 1) (Tensor ''input'')])"
    by code_simp
  have sr: "session_run (demo_env ?e) = demo_session_run ?e" by (simp add: demo_env_def)
  from jacobian_mono_channel[OF j x decl e4 lt] obtain s0 s1 s2 k J x1 x2 final_stack where
    sv: "shape ?x = [s0, s1, s2]" and k: "labels_shape (demo_net ?e) = PyInt (int k)"
    and m1: "np_inplace (-) ?x (input_mean (demo_net ?e)) = Inr x1"
    and m2: "np_inplace (/) x1 (input_std (demo_net ?e)) = Inr x2"
    and st: "fst (final_stack_of (demo_env ?e) (demo_net ?e) (Tensor ''input'') (world_with ?x))
               = Inr final_stack"
    and hJ: "heap (snd ?j) 2 = Some J" and sJ: "shape J = [k, s1, s2, 1, s0]"
    and runs: "\<forall>sh. SessionRun sh \<in> set (calls (snd ?j)) \<longrightarrow>
                  SessionRun sh \<in> set (calls (world_with ?x)) \<or> sh = [1, s1, s2, 1]"
    and cont: "\<forall>idx. valid_idx (shape J) idx \<longrightarrow>
                  idx ! 3 = 0
                  \<and> (\<exists>g. session_run (demo_env ?e) final_stack (Tensor ''input'')
                             \<lparr>shape = [1, s1, s2, 1],
                                data = take (s1 * s2) (drop (idx ! 4 * (s1 * s2)) (data x2))\<rparr>
                           = Inr g
                         \<and> get J idx = aget g (take 3 idx))"
    by (elim exE conjE)
  from sv have s: "s0 = 2" "s1 = 2" "s2 = 2" by simp_all
  from k l have k2: "k = 2" by simp
  from m1 n1 have x1: "x1 = \<lparr>shape = [2, 2, 2], data = [0, 1, 2, 3, 4, 5, 6, 7]\<rparr>" by simp
  from m2 n2 x1 have x2: "data x2 = [0, 1 / 2, 1, 3 / 2, 2, 5 / 2, 3, 7 / 2]" by auto
  from st fs have fst: "final_stack = Stacked
       [Gradient (Strided (Tensor ''output'') 0 0) (Tensor ''input''),
        Gradient (Strided (Tensor ''output'') 0 1) (Tensor ''input'')]"
    by simp
  show ?thesis
    using hJ sJ runs cont unfolding s k2 x2 fst sr c by (intro exI[of _ J]) simp
qed

section \<open>Properties of save\<close>

lemma file_write_Some:
  "files w p = Some c \<Longrightarrow> file_write p l w = w\<lparr>files := (files w)(p := Some (c @ l))\<rparr>"
  by (simp add: file_write_def)

lemma fold_file_write:
  "files w p = Some c \<Longrightarrow>
     fold (file_write p) ls w = w\<lparr>files := (files w)(p := Some (c @ concat ls))\<rparr>"
proof (induction ls arbitrary: w c)
  case Nil
  then have "(files w)(p := Some c) = files w" by (simp add: fun_upd_idem)
  then show ?case by simp
next
  case (Cons l ls)
  let ?w = "w\<lparr>files := (files w)(p := Some (c @ l))\<rparr>"
  have w: "file_write p l w = ?w" by (rule file_write_Some[OF Cons.prems])
  have "files ?w p = Some (c @ l)" by simp
  from Cons.IH[OF this] have
    "fold (file_write p) ls ?w = ?w\<lparr>files := (files ?w)(p := Some ((c @ l) @ concat ls))\<rparr>" .
  also have "(files ?w)(p := Some ((c @ l) @ concat ls)) = (files w)(p := Some (c @ concat (l # ls)))"
    by (simp add: fun_eq_iff)
  also have "?w\<lparr>files := (files w)(p := Some (c @ concat (l # ls)))\<rparr>
               = w\<lparr>files := (files w)(p := Some (c @ concat (l # ls)))\<rparr>"
    by simp
  finally show ?case by (simp only: fold_simps w)
qed

lemma save_hyper_txt_creates:
  assumes f: "folder = resolve_folder ev self nm w"
    and d: "dir = os_path_join (currentdir self) folder"
    and p: "path = os_path_join (currentdir self) (folder @ ''/'') @ ''hyperparameter.txt''"
    and s: "self' = self\<lparr>folder_name := Some folder,
                         fullfilepath := Some (os_path_join (currentdir self) (folder @ ''/'')),
                         hyper_txt := Some path\<rparr>"
    and new: "files w path = None" and nf: "files w dir = None"
    and nd: "path \<notin> dirs w" and ne: "path \<noteq> dir"
  shows "save_hyper_txt ev self nm w
           = (None, self', w\<lparr>dirs := insert dir (dirs w),
                               files := (files w)(path := Some (concat (hyper_lines ev self')))\<rparr>)"
proof (cases "dir \<in> dirs w")
  case True
  then have i: "insert dir (dirs w) = dirs w" by auto
  have o: "open_hyper_txt dir path w = (None, w\<lparr>files := (files w)(path := Some [])\<rparr>)"
    using True new nd by (simp add: open_hyper_txt_def os_path_isfile_def py_open_def)
  show ?thesis
    using True o fold_file_write[of "w\<lparr>files := (files w)(path := Some [])\<rparr>" path "[]"]
    by (simp add: save_hyper_txt_def Let_def os_path_exists_def f[symmetric] d[symmetric]
        p[symmetric] s[symmetric] i)
next
  case False
  let ?w1 = "os_makedirs dir w"
  have o: "open_hyper_txt dir path ?w1 = (None, ?w1\<lparr>files := (files w)(path := Some [])\<rparr>)"
    using new nd ne
    by (simp add: open_hyper_txt_def os_path_isfile_def py_open_def os_makedirs_def)
  show ?thesis
    using False nf o fold_file_write[of "?w1\<lparr>files := (files w)(path := Some [])\<rparr>" path "[]"]
    by (simp add: save_hyper_txt_def Let_def os_path_exists_def f[symmetric] d[symmetric]
        p[symmetric] s[symmetric] os_makedirs_def)
qed

lemma save_hyper_txt_appends:
  assumes f: "folder = resolve_folder ev self nm w"
    and d: "dir = os_path_join (currentdir self) folder"
    and p: "path = os_path_join (currentdir self) (folder @ ''/'') @ ''hyperparameter.txt''"
    and s: "self' = self\<lparr>folder_name := Some folder,
                         fullfilepath := Some (os_path_join (currentdir self) (folder @ ''/'')),
                         hyper_txt := Some path\<rparr>"
    and old: "files w path = Some old"
    and dd: "dir \<in> dirs w" and nd: "path \<notin> dirs w"
  shows "save_hyper_txt ev self nm w
           = (None, self',
              w\<lparr>files := (files w)(path := Some (old @ newline @ ''======Another Run======''
                                                  @ concat (hyper_lines ev self')))\<rparr>)"
proof -
  let ?w2 = "file_write path ''======Another Run======'' (file_write path newline w)"
  have o: "open_hyper_txt dir path w = (None, ?w2)"
    using old dd nd by (simp add: open_hyper_txt_def os_path_isfile_def py_open_def)
  have c: "files ?w2 path = Some (old @ newline @ ''======Another Run======'')"
    using old by (simp add: file_write_def)
  show ?thesis
    using dd o fold_file_write[OF c]
    by (simp add: save_hyper_txt_def Let_def os_path_exists_def f[symmetric] d[symmetric]
        p[symmetric] s[symmetric] file_write_def)
qed

lemma save_demo_env:
  "save_hyper_txt (demo_env e) self nm w = (None, self', w') \<Longrightarrow>
     save (demo_env e) self nm False w = (None, self', w')"
  by (simp add: save_def demo_env_def)


lemma demo_hyper_text:
  "concat (hyper_lines (demo_env [])
     (init_neuralnet\<lparr>folder_name := Some ''run1'', fullfilepath := Some ''/home/user/run1/'',
                     hyper_txt := Some ''/home/user/run1/hyperparameter.txt''\<rparr>))
   = concat [''Model: None \<newline>'', ''Model Type: None \<newline>'',
       ''astroNN identifier: NeuralNetMaster \<newline>'', ''Python Version: 3.6 \<newline>'',
       ''astroNN Version: 0.9 \<newline>'', ''Keras Version: 2.1 \<newline>'',
       ''Tensorflow Version: 1.5 \<newline>'', ''Folder Name: run1 \<newline>'',
       ''Batch size: 64 \<newline>'', ''Optimizer: NoneType \<newline>'',
       ''Maximum Epochs: None \<newline>'', ''Learning Rate: None \<newline>'',
       ''Validation Size: None \<newline>'', ''Input Shape: None \<newline>'',
       ''Label Shape: None \<newline>'', ''Number of Training Data: None \<newline>'',
       ''Number of Validation Data: None \<newline>'']"
  by (simp add: hyper_lines_def init_neuralnet_def show_opt_str_def show_opt_int_def
      show_opt_float_def show_shape_def show_int_def show_nat.simps optimizer_class_name_def
      newline_def)

text \<open>
  C9. Two consecutive \<^verbatim>\<open>save\<close> calls on the same folder, evaluated: \<^verbatim>\<open>save('run1')\<close> and then
  \<^verbatim>\<open>save()\<close> on a fresh object in an empty directory. The second call appends: the first
  run's seventeen lines are kept and an empty line follows them (lemma
  \<open>save_hyper_txt_appends\<close> shows this for every object and world). But the marker is
  written without a newline after it, so it is not a line of its own: it shares its line
  with the second run's first entry, which reads \<^verbatim>\<open>======Another Run======Model: None\<close>.
\<close>

theorem save_twice_marker_shares_line:
  "saved_text (save_again (demo_env [])
      (save (demo_env []) init_neuralnet (Some ''run1'') False empty_world))
   = Some (concat [''Model: None \<newline>'', ''Model Type: None \<newline>'',
       ''astroNN identifier: NeuralNetMaster \<newline>'', ''Python Version: 3.6 \<newline>'',
       ''astroNN Version: 0.9 \<newline>'', ''Keras Version: 2.1 \<newline>'',
       ''Tensorflow Version: 1.5 \<newline>'', ''Folder Name: run1 \<newline>'',
       ''Batch size: 64 \<newline>'', ''Optimizer: NoneType \<newline>'',
       ''Maximum Epochs: None \<newline>'', ''Learning Rate: None \<newline>'',
       ''Validation Size: None \<newline>'', ''Input Shape: None \<newline>'',
       ''Label Shape: None \<newline>'', ''Number of Training Data: None \<newline>'',
       ''Number of Validation Data: None \<newline>'',
       ''\<newline>'',
       ''======Another Run======Model: None \<newline>'', ''Model Type: None \<newline>'',
       ''astroNN identifier: NeuralNetMaster \<newline>'', ''Python Version: 3.6 \<newline>'',
       ''astroNN Version: 0.9 \<newline>'', ''Keras Version: 2.1 \<newline>'',
       ''Tensorflow Version: 1.5 \<newline>'', ''Folder Name: run1 \<newline>'',
       ''Batch size: 64 \<newline>'', ''Optimizer: NoneType \<newline>'',
       ''Maximum Epochs: None \<newline>'', ''Learning Rate: None \<newline>'',
       ''Validation Size: None \<newline>'', ''Input Shape: None \<newline>'',
       ''Label Shape: None \<newline>'', ''Number of Training Data: None \<newline>'',
       ''Number of Validation Data: None \<newline>''])"
proof -
  let ?ev = "demo_env []"
  let ?path = "''/home/user/run1/hyperparameter.txt''"
  let ?s1 = "init_neuralnet\<lparr>folder_name := Some ''run1'',
                fullfilepath := Some ''/home/user/run1/'', hyper_txt := Some ?path\<rparr>"
  let ?c1 = "concat (hyper_lines ?ev ?s1)"
  let ?w1 = "empty_world\<lparr>dirs := insert ''/home/user/run1'' (dirs empty_world),
                            files := (files empty_world)(?path := Some ?c1)\<rparr>"
  have first: "save ?ev init_neuralnet (Some ''run1'') False empty_world = (None, ?s1, ?w1)"
    by (rule save_demo_env,
        rule save_hyper_txt_creates[where folder = "''run1''" and dir = "''/home/user/run1''"])
       (simp_all add: resolve_folder_def os_path_join_def init_neuralnet_def empty_world_def)
  have s1: "?s1\<lparr>folder_name := Some ''run1'', fullfilepath := Some ''/home/user/run1/'',
                hyper_txt := Some ?path\<rparr> = ?s1"
    by simp
  have second: "save ?ev ?s1 None False ?w1
      = (None, ?s1, ?w1\<lparr>files := (files ?w1)(?path := Some (?c1 @ newline
                                  @ ''======Another Run======'' @ ?c1))\<rparr>)"
    by (rule save_demo_env,
        rule save_hyper_txt_appends[where old = ?c1 and self' = ?s1 and folder = "''run1''"
                                      and dir = "''/home/user/run1''"])
       (simp_all add: resolve_folder_def os_path_join_def init_neuralnet_def empty_world_def)
  have "saved_text (save_again ?ev (save ?ev init_neuralnet (Some ''run1'') False empty_world))
          = Some (?c1 @ newline @ ''======Another Run======'' @ ?c1)"
    unfolding first save_again_def prod.case second saved_text_def by simp
  then show ?thesis
    unfolding demo_hyper_text by (simp add: newline_def)
qed

end
